theory Spec2Isabelle
  imports Main "HOL-Library.Word" "HOL-Library.Monad_Syntax" "HOL-Library.AList"
begin

unbundle bit_operations_syntax

section \<open>CloudFusion: machine types\<close>

text \<open>
  The program is written in Go. \<open>uint64\<close> is a 64-bit word (arithmetic wraps), a
  \<open>byte\<close> an 8-bit word, \<open>[]byte\<close> a list of bytes. A Go function that panics
  (a slice expression out of range, a nil dereference) is modelled with result \<open>None\<close>;
  a returned \<open>error\<close> value is a value of the datatype \<open>error\<close>.
\<close>

type_synonym byte = "8 word"
type_synonym u64 = "64 word"

datatype error =
    OffsetPastEnd     \<comment> \<open>"Offset specified to read is past the end of the file."\<close>
  | CacheMiss         \<comment> \<open>"Error doing GetItem to DynamoDB (cache miss)."\<close>
  | CacheHitFailed    \<comment> \<open>"Error doing GetItem to DynamoDB on supposed cache hit."\<close>
  | CacheRemoveFailed \<comment> \<open>"Failed to removeBlock from cache."\<close>
  | NoSuchKey         \<comment> \<open>the error of an S3 GetObject for a key the bucket does not hold\<close>
  | UnexpectedEOF     \<comment> \<open>binary.Read on fewer bytes than the value needs\<close>
  | DeleteTooLarge    \<comment> \<open>"SIZE OF DELETE TOO LARGE"\<close>
  | NotEmpty          \<comment> \<open>"Cannot remove non-empty directory ..."\<close>
  | ENOENT            \<comment> \<open>fuse.ENOENT\<close>
  | GobError          \<comment> \<open>an error of the gob decoder\<close>

section \<open>IntStream (stream.go)\<close>

text \<open>
  \<open>stack\<close> is a \<open>container/list\<close> list; its front is the head of the HOL list.
\<close>

record IntStream =
  stack :: "u64 list"
  lastInt :: u64

text \<open>\<open>IntStream.next\<close>: returns the value and the updated stream.\<close>

definition IntStream_next :: "IntStream \<Rightarrow> u64 \<times> IntStream" where
  "IntStream_next s =
     (if length (stack s) = 0
      then (let s' = s\<lparr>lastInt := lastInt s + 1\<rparr> in (lastInt s', s'))
      else (hd (stack s), s\<lparr>stack := tl (stack s)\<rparr>))"

text \<open>\<open>IntStream.put\<close>: \<open>PushFront\<close>.\<close>

definition IntStream_put :: "u64 \<Rightarrow> IntStream \<Rightarrow> IntStream" where
  "IntStream_put newInt s = s\<lparr>stack := newInt # stack s\<rparr>"

text \<open>Repeated calls of \<open>next\<close>, collecting the values returned, in order.\<close>

fun nexts :: "nat \<Rightarrow> IntStream \<Rightarrow> u64 list \<times> IntStream" where
  "nexts 0 s = ([], s)"
| "nexts (Suc k) s =
     (let (v, s') = IntStream_next s; (vs, s'') = nexts k s' in (v # vs, s''))"

subsection \<open>Little-endian integers (encoding/binary)\<close>

text \<open>\<open>binary.LittleEndian.PutUint64\<close> and \<open>binary.LittleEndian.Uint64\<close>.\<close>

definition PutUint64 :: "u64 \<Rightarrow> byte list" where
  "PutUint64 v =
     [ucast v, ucast (drop_bit 8 v), ucast (drop_bit 16 v), ucast (drop_bit 24 v),
      ucast (drop_bit 32 v), ucast (drop_bit 40 v), ucast (drop_bit 48 v), ucast (drop_bit 56 v)]"

definition Uint64 :: "byte list \<Rightarrow> u64" where
  "Uint64 b = foldr (\<lambda>x acc. ucast x OR push_bit 8 acc) (take 8 b) 0"

definition compressStream :: "IntStream \<Rightarrow> byte list" where
  "compressStream s = PutUint64 (lastInt s)"

definition decompressStream :: "byte list \<Rightarrow> IntStream \<Rightarrow> IntStream" where
  "decompressStream buf s = s\<lparr>lastInt := Uint64 (take 8 buf)\<rparr>"

subsection \<open>The gob wire format of a \<open>[]uint64\<close>\<close>

text \<open>
  \<open>MarshalBinary\<close> and \<open>UnmarshalBinary\<close> call Go's \<open>encoding/gob\<close> on a value of
  type \<open>[]uint64\<close>. The library is not part of the repository; it is modelled by its
  documented wire format. An unsigned integer below 128 is one byte; any other is its
  minimal big-endian byte string preceded by a byte holding the negated byte count. A
  stream for a top-level \<open>[]uint64\<close> is the message defining type 65 as a slice of
  \<open>uint\<close> (13 fixed bytes), then the value message: its byte length, the type id 65,
  a zero byte (a value that is not a struct), the element count and the elements.
\<close>

fun be_bytes :: "nat \<Rightarrow> byte list" where
  "be_bytes n = (if n = 0 then [] else be_bytes (n div 256) @ [of_nat (n mod 256)])"

declare be_bytes.simps [simp del]

definition be_val :: "byte list \<Rightarrow> nat" where
  "be_val bs = foldl (\<lambda>acc b. acc * 256 + unat b) 0 bs"

definition gob_uint :: "u64 \<Rightarrow> byte list" where
  "gob_uint x =
     (if x \<le> 0x7F then [ucast x]
      else (let bs = be_bytes (unat x) in of_nat (256 - length bs) # bs))"

definition gob_read_uint :: "byte list \<Rightarrow> (u64 \<times> byte list) option" where
  "gob_read_uint bs =
     (case bs of
        [] \<Rightarrow> None
      | b # rest \<Rightarrow>
          if b \<le> 0x7F then Some (ucast b, rest)
          else (let n = 256 - unat b in
                if 8 < n \<or> length rest < n then None
                else Some (of_nat (be_val (take n rest)), drop n rest)))"

fun gob_read_uints :: "nat \<Rightarrow> byte list \<Rightarrow> (u64 list \<times> byte list) option" where
  "gob_read_uints 0 bs = Some ([], bs)"
| "gob_read_uints (Suc k) bs =
     (case gob_read_uint bs of
        None \<Rightarrow> None
      | Some (x, rest) \<Rightarrow>
          (case gob_read_uints k rest of
             None \<Rightarrow> None
           | Some (xs, rest') \<Rightarrow> Some (x # xs, rest')))"

definition gob_slice_typedef :: "byte list" where
  "gob_slice_typedef =
     [0x0C, 0xFF, 0x81, 0x02, 0x01, 0x02, 0xFF, 0x82, 0x00, 0x01, 0x06, 0x00, 0x00]"

definition gob_value_prefix :: "byte list" where
  "gob_value_prefix = [0xFF, 0x82, 0x00]"

definition gob_encode_uint64s :: "u64 list \<Rightarrow> byte list" where
  "gob_encode_uint64s xs =
     (let body = gob_value_prefix @ gob_uint (of_nat (length xs)) @ concat (map gob_uint xs)
      in gob_slice_typedef @ gob_uint (of_nat (length body)) @ body)"

definition gob_decode_uint64s :: "byte list \<Rightarrow> u64 list option" where
  "gob_decode_uint64s bs =
     (if take (length gob_slice_typedef) bs \<noteq> gob_slice_typedef then None
      else (case gob_read_uint (drop (length gob_slice_typedef) bs) of
              None \<Rightarrow> None
            | Some (n, rest) \<Rightarrow>
                if length rest < unat n then None
                else (let body = take (unat n) rest in
                      if take 3 body \<noteq> gob_value_prefix then None
                      else (case gob_read_uint (drop 3 body) of
                              None \<Rightarrow> None
                            | Some (cnt, elems) \<Rightarrow>
                                (case gob_read_uints (unat cnt) elems of
                                   None \<Rightarrow> None
                                 | Some (xs, left) \<Rightarrow> if left = [] then Some xs else None)))))"

subsection \<open>MarshalBinary and UnmarshalBinary\<close>

text \<open>
  The loop of \<open>MarshalBinary\<close>: while the stack is not empty, store its front at index
  \<open>Len() - 1\<close> of the array and remove it. It returns the stack and the array it ends with.
\<close>

fun marshal_loop :: "u64 list \<Rightarrow> u64 list \<Rightarrow> u64 list \<times> u64 list" where
  "marshal_loop [] listArray = ([], listArray)"
| "marshal_loop (x # st) listArray = marshal_loop st (listArray[length (x # st) - 1 := x])"

text \<open>
  \<open>IntStream.MarshalBinary\<close>: the bytes and the stream as the call leaves it. Encoding
  into a \<open>bytes.Buffer\<close> does not fail.
\<close>

definition IntStream_MarshalBinary :: "IntStream \<Rightarrow> byte list \<times> IntStream" where
  "IntStream_MarshalBinary s =
     (let (st, listArray) = marshal_loop (stack s) (replicate (length (stack s)) 0)
      in (gob_encode_uint64s listArray, s\<lparr>stack := st\<rparr>))"

text \<open>
  \<open>IntStream.UnmarshalBinary\<close>: a fresh list, every decoded entry pushed at its front.
  A decoding error ends the process (\<open>os.Exit(2)\<close>): \<open>Inl GobError\<close>.
\<close>

definition IntStream_UnmarshalBinary :: "byte list \<Rightarrow> IntStream \<Rightarrow> error + IntStream" where
  "IntStream_UnmarshalBinary data s =
     (case gob_decode_uint64s data of
        None \<Rightarrow> Inl GobError
      | Some listArray \<Rightarrow> Inr (s\<lparr>stack := fold (\<lambda>entry st. entry # st) listArray []\<rparr>))"

section \<open>Slices and copy\<close>

text \<open>
  A slice expression \<open>a[lo:hi]\<close> panics unless \<open>lo \<le> hi \<le> cap(a)\<close>; every slice is
  modelled with its capacity equal to its length. \<open>copy(dst[lo:hi], src)\<close> overwrites
  the first \<open>min (hi - lo) (len src)\<close> positions of \<open>dst\<close> from \<open>lo\<close> on.
\<close>

definition slice :: "'a list \<Rightarrow> nat \<Rightarrow> nat \<Rightarrow> 'a list option" where
  "slice a lo hi = (if lo \<le> hi \<and> hi \<le> length a then Some (take (hi - lo) (drop lo a)) else None)"

definition slice_from :: "'a list \<Rightarrow> nat \<Rightarrow> 'a list option" where
  "slice_from a lo = (if lo \<le> length a then Some (drop lo a) else None)"

definition copy_at :: "'a list \<Rightarrow> nat \<Rightarrow> nat \<Rightarrow> 'a list \<Rightarrow> 'a list option" where
  "copy_at dst lo hi src =
     (if lo \<le> hi \<and> hi \<le> length dst
      then Some (take lo dst @ take (hi - lo) src @ drop (lo + min (hi - lo) (length src)) dst)
      else None)"

section \<open>Constants (block.go, inode.go)\<close>

definition BLOCK_SIZE :: u64 where "BLOCK_SIZE = 32768"
definition INODE_SIZE :: u64 where "INODE_SIZE = 512"
definition NUM_DATA_BLOCKS :: u64 where "NUM_DATA_BLOCKS = 12"
definition INODE_WITHOUT_BUFFER_SIZE :: u64 where "INODE_WITHOUT_BUFFER_SIZE = 139"
definition INODE_BUFFER_SIZE :: u64 where
  "INODE_BUFFER_SIZE = INODE_SIZE - INODE_WITHOUT_BUFFER_SIZE"
definition FIRST_DATA_BLOCK_BYTE :: u64 where
  "FIRST_DATA_BLOCK_BYTE = INODE_BUFFER_SIZE"
definition FIRST_SINGLY_INDIRECT_BYTE :: u64 where
  "FIRST_SINGLY_INDIRECT_BYTE = FIRST_DATA_BLOCK_BYTE + NUM_DATA_BLOCKS * BLOCK_SIZE"
definition FIRST_DOUBLY_INDIRECT_BYTE :: u64 where
  "FIRST_DOUBLY_INDIRECT_BYTE = FIRST_SINGLY_INDIRECT_BYTE + BLOCK_SIZE * BLOCK_SIZE"
definition FIRST_TRIPLY_INDIRECT_BYTE :: u64 where
  "FIRST_TRIPLY_INDIRECT_BYTE = FIRST_DOUBLY_INDIRECT_BYTE + BLOCK_SIZE * BLOCK_SIZE * BLOCK_SIZE"
definition IND_BLOCK :: nat where "IND_BLOCK = 12"
definition IND_BLOCK_SIZE :: u64 where "IND_BLOCK_SIZE = BLOCK_SIZE * BLOCK_SIZE"
definition DOUB_IND_BLOCK :: nat where "DOUB_IND_BLOCK = 13"
definition DOUB_IND_BLOCK_SIZE :: u64 where
  "DOUB_IND_BLOCK_SIZE = BLOCK_SIZE * BLOCK_SIZE * BLOCK_SIZE"
definition TRIP_IND_BLOCK :: nat where "TRIP_IND_BLOCK = 14"
definition ROOT_INODE :: u64 where "ROOT_INODE = 1"

text \<open>A \<open>DataBlock\<close> is its array of \<open>BLOCK_SIZE\<close> bytes; \<open>new(DataBlock)\<close> is all zero.\<close>

type_synonym DataBlock = "byte list"

definition new_DataBlock :: DataBlock where
  "new_DataBlock = replicate (unat BLOCK_SIZE) 0"

section \<open>Keys and the remote stores\<close>

text \<open>
  A key of the table and of the bucket is the string \<open>HASH-dataN\<close>, \<open>HASH-inodeBlockM\<close>
  or \<open>superI\<close>, where \<open>HASH\<close> is four hex digits of the MD5 of the rest. The hash is a
  function of the rest of the key, so a key is modelled by its kind and its number.
\<close>

datatype key = DataKey u64 | InodeBlockKey u64 | SuperKey nat

definition genDataKey :: "u64 \<Rightarrow> key" where
  "genDataKey dataNum = DataKey dataNum"

definition genInodeBlockKey :: "u64 \<Rightarrow> key" where
  "genInodeBlockKey inodeNum = InodeBlockKey (inodeNum div (BLOCK_SIZE div INODE_SIZE))"

text \<open>
  The cache (cache.go). \<open>recentlyUsedQueue\<close> is a \<open>container/list\<close> list, front first:
  each element is a heap cell, modelled by its address and the key it holds.
  \<open>keyHash\<close> maps a key to the address of an element (\<open>None\<close> is \<open>nil\<close>), and
  \<open>nextElement\<close> is the address the next \<open>PushBack\<close> allocates.
\<close>

record Cache =
  cacheCapacity :: int
  recentlyUsedQueue :: "(nat \<times> key) list"
  keyHash :: "key \<Rightarrow> nat option"
  nextElement :: nat

text \<open>
  The world the file system runs in: the cache, the DynamoDB table (\<open>Name \<mapsto> Value\<close>),
  the S3 bucket, the global \<open>dataStream\<close>, and the numbers of the blocks
  \<open>deleteBlock\<close> was called for, oldest first. Calls to the two remote stores are
  modelled as succeeding: the table and the bucket are maps, a \<open>GetObject\<close> of a missing
  key is the error \<open>NoSuchKey\<close>, a \<open>DeleteObject\<close> of a missing key is no error.
\<close>

record World =
  cache :: Cache
  dynamo :: "key \<Rightarrow> byte list option"
  s3 :: "key \<Rightarrow> byte list option"
  dataStream :: IntStream
  deleted :: "u64 list"

text \<open>\<open>initializeCache\<close>.\<close>

definition initializeCache :: "int \<Rightarrow> Cache" where
  "initializeCache cacheSize =
     \<lparr>cacheCapacity = cacheSize, recentlyUsedQueue = [], keyHash = (\<lambda>k. None), nextElement = 0\<rparr>"

text \<open>\<open>list.Remove\<close>, \<open>list.MoveToBack\<close> and \<open>list.PushBack\<close> on the queue.\<close>

definition list_Remove :: "nat \<Rightarrow> (nat \<times> key) list \<Rightarrow> (nat \<times> key) list" where
  "list_Remove elt q = filter (\<lambda>e. fst e \<noteq> elt) q"

definition list_MoveToBack :: "nat \<Rightarrow> (nat \<times> key) list \<Rightarrow> (nat \<times> key) list" where
  "list_MoveToBack elt q = filter (\<lambda>e. fst e \<noteq> elt) q @ filter (\<lambda>e. fst e = elt) q"

definition list_PushBack :: "key \<Rightarrow> Cache \<Rightarrow> nat \<times> Cache" where
  "list_PushBack k c =
     (nextElement c,
      c\<lparr>recentlyUsedQueue := recentlyUsedQueue c @ [(nextElement c, k)],
        nextElement := Suc (nextElement c)\<rparr>)"

text \<open>
  \<open>Cache.evictBlock\<close>: delete the item from the table, returning its old value, and put
  that value into the bucket. When the table holds no such item the function calls
  \<open>err.Error()\<close> on a nil error: a panic.
\<close>

definition Cache_evictBlock :: "key \<Rightarrow> World \<Rightarrow> (error option \<times> World) option" where
  "Cache_evictBlock k w =
     (case dynamo w k of
        None \<Rightarrow> None
      | Some data \<Rightarrow> Some (None, w\<lparr>dynamo := (dynamo w)(k := None), s3 := (s3 w)(k \<mapsto> data)\<rparr>))"

text \<open>\<open>Cache.addBlock\<close>.\<close>

definition Cache_addBlock :: "DataBlock \<Rightarrow> key \<Rightarrow> World \<Rightarrow> (error option \<times> World) option" where
  "Cache_addBlock data k w0 =
     (let w = w0\<lparr>dynamo := (dynamo w0)(k \<mapsto> data)\<rparr>; c = cache w in
      case keyHash c k of
        None \<Rightarrow>
          do {
            w1 \<leftarrow> (if int (length (recentlyUsedQueue c)) = cacheCapacity c
                   then (case recentlyUsedQueue c of
                           [] \<Rightarrow> None
                         | (evictElt, evictKey) # _ \<Rightarrow>
                             do {
                               (_, w') \<leftarrow> Cache_evictBlock evictKey
                                  (w\<lparr>cache := c\<lparr>recentlyUsedQueue := list_Remove evictElt (recentlyUsedQueue c),
                                                 keyHash := (keyHash c)(evictKey := None)\<rparr>\<rparr>);
                               Some w'
                             })
                   else Some w);
            let (newElt, c1) = list_PushBack k (cache w1);
            Some (None, w1\<lparr>cache := c1\<lparr>keyHash := (keyHash c1)(k \<mapsto> newElt)\<rparr>\<rparr>)
          }
      | Some elt \<Rightarrow>
          Some (None, w\<lparr>cache := c\<lparr>recentlyUsedQueue := list_MoveToBack elt (recentlyUsedQueue c)\<rparr>\<rparr>))"

text \<open>\<open>Cache.deleteBlock\<close>.\<close>

definition Cache_deleteBlock :: "key \<Rightarrow> World \<Rightarrow> error option \<times> World" where
  "Cache_deleteBlock k w =
     (let c = cache w in
      case keyHash c k of
        None \<Rightarrow> (Some CacheRemoveFailed, w)
      | Some elt \<Rightarrow>
          (None, w\<lparr>cache := c\<lparr>recentlyUsedQueue := list_Remove elt (recentlyUsedQueue c),
                              keyHash := (keyHash c)(k := None)\<rparr>,
                   dynamo := (dynamo w)(k := None)\<rparr>))"

text \<open>\<open>Cache.getBlock\<close>.\<close>

definition Cache_getBlock :: "key \<Rightarrow> World \<Rightarrow> (byte list \<times> error option) \<times> World" where
  "Cache_getBlock k w =
     (let c = cache w in
      case keyHash c k of
        None \<Rightarrow> (([], Some CacheMiss), w)
      | Some elt \<Rightarrow>
          (case dynamo w k of
             None \<Rightarrow> (([], Some CacheHitFailed), w)
           | Some v \<Rightarrow>
               ((v, None), w\<lparr>cache := c\<lparr>recentlyUsedQueue := list_MoveToBack elt (recentlyUsedQueue c)\<rparr>\<rparr>)))"

text \<open>\<open>Cache.empty\<close>: evict every key of the queue, front first, stopping at an error.\<close>

fun empty_loop :: "(nat \<times> key) list \<Rightarrow> World \<Rightarrow> (error option \<times> World) option" where
  "empty_loop [] w = Some (None, w)"
| "empty_loop (e # es) w =
     (case Cache_evictBlock (snd e) w of
        None \<Rightarrow> None
      | Some (Some err, w') \<Rightarrow> Some (Some err, w')
      | Some (None, w') \<Rightarrow> empty_loop es w')"

definition Cache_empty :: "World \<Rightarrow> (error option \<times> World) option" where
  "Cache_empty w = empty_loop (recentlyUsedQueue (cache w)) w"

section \<open>The block store (block.go)\<close>

text \<open>
  \<open>binary.Read\<close> into a \<open>DataBlock\<close> needs \<open>BLOCK_SIZE\<close> bytes; with fewer it returns an
  error and leaves the block as it was.
\<close>

definition getDataByKey :: "key \<Rightarrow> World \<Rightarrow> ((DataBlock \<times> error option) \<times> World) option" where
  "getDataByKey k w =
     (let data = new_DataBlock in
      case Cache_getBlock k w of
        ((dataSlice, Some err), w1) \<Rightarrow>
          (case s3 w1 k of
             Some body \<Rightarrow>
               if length body < unat BLOCK_SIZE then Some ((data, Some UnexpectedEOF), w1)
               else (let data' = take (unat BLOCK_SIZE) body in
                     do { (_, w2) \<leftarrow> Cache_addBlock data' k w1; Some ((data', None), w2) })
           | None \<Rightarrow> Some ((data, Some NoSuchKey), w1))
      | ((dataSlice, None), w1) \<Rightarrow>
          Some ((take (unat BLOCK_SIZE) dataSlice @ drop (length dataSlice) data, None), w1))"

definition putDataByKey :: "key \<Rightarrow> DataBlock \<Rightarrow> World \<Rightarrow> (error option \<times> World) option" where
  "putDataByKey k data w = Cache_addBlock data k w"

definition getData :: "u64 \<Rightarrow> World \<Rightarrow> ((DataBlock \<times> error option) \<times> World) option" where
  "getData dataNum w = getDataByKey (genDataKey dataNum) w"

definition getInodeBlock :: "u64 \<Rightarrow> World \<Rightarrow> ((DataBlock \<times> error option) \<times> World) option" where
  "getInodeBlock inodeNum w = getDataByKey (genInodeBlockKey inodeNum) w"

definition putData :: "u64 \<Rightarrow> DataBlock \<Rightarrow> World \<Rightarrow> (error option \<times> World) option" where
  "putData dataNum data w = putDataByKey (genDataKey dataNum) data w"

definition putInodeBlock :: "u64 \<Rightarrow> DataBlock \<Rightarrow> World \<Rightarrow> (error option \<times> World) option" where
  "putInodeBlock inodeNum inodeBlock w = putDataByKey (genInodeBlockKey inodeNum) inodeBlock w"

text \<open>
  \<open>deleteBlock\<close>: the cache's \<open>deleteBlock\<close>, then a \<open>DeleteObject\<close> on the bucket; an
  error only when both fail.
\<close>

definition deleteBlock :: "u64 \<Rightarrow> World \<Rightarrow> error option \<times> World" where
  "deleteBlock dataNum w =
     (let k = genDataKey dataNum;
          (cacheErr, w1) = Cache_deleteBlock k w
      in (None, w1\<lparr>s3 := (s3 w1)(k := None), deleted := deleted w1 @ [dataNum]\<rparr>))"

section \<open>Inodes (inode.go)\<close>

text \<open>
  \<open>DataBuf\<close> is an array of \<open>INODE_BUFFER_SIZE\<close> (373) bytes and \<open>Data\<close> an array of
  \<open>NUM_DATA_BLOCKS + 3\<close> (15) block numbers: the lists of an inode have these lengths.
\<close>

record Inode =
  Size :: u64
  LinkCount :: "16 word"
  UnixTime :: "64 word"
  IsDir :: "8 word"
  DataBuf :: "byte list"
  Data :: "u64 list"

definition wf_Inode :: "Inode \<Rightarrow> bool" where
  "wf_Inode i = (length (DataBuf i) = unat INODE_BUFFER_SIZE \<and> length (Data i) = 15)"

text \<open>\<open>updateSize\<close>; \<open>now\<close> is the value of \<open>time.Now().Unix()\<close>.\<close>

definition updateSize :: "u64 \<Rightarrow> 64 word \<Rightarrow> Inode \<Rightarrow> Inode" where
  "updateSize sz now i = i\<lparr>Size := sz, UnixTime := now\<rparr>"

definition createInode :: "8 word \<Rightarrow> 64 word \<Rightarrow> Inode" where
  "createInode isDir sysTime =
     \<lparr>Size = 0, LinkCount = 0, UnixTime = sysTime, IsDir = isDir,
      DataBuf = replicate (unat INODE_BUFFER_SIZE) 0, Data = replicate 15 0\<rparr>"

subsection \<open>Writing\<close>

text \<open>\<open>writeBlock\<close>: the block number used and the data left to write.\<close>

definition writeBlock ::
  "byte list \<Rightarrow> u64 \<Rightarrow> u64 \<Rightarrow> World \<Rightarrow> ((u64 \<times> byte list) \<times> World) option" where
  "writeBlock data offset blockNum w =
     do {
       ((oldData0, err), w1) \<leftarrow> getData blockNum w;
       let (oldData, blockNum', w2) =
         (case err of
            Some _ \<Rightarrow> (let (n, ds) = IntStream_next (dataStream w1)
                       in (new_DataBlock, n, w1\<lparr>dataStream := ds\<rparr>))
          | None \<Rightarrow> (oldData0, blockNum, w1));
       let sz = (of_nat (length data) :: u64);
       let writeEnd = (if offset + sz > BLOCK_SIZE then BLOCK_SIZE else offset + sz);
       let writeLen = writeEnd - offset;
       src \<leftarrow> slice data 0 (unat writeLen);
       oldData' \<leftarrow> copy_at oldData (unat offset) (unat writeEnd) src;
       (_, w3) \<leftarrow> putData blockNum' oldData' w2;
       rest \<leftarrow> slice_from data (unat writeLen);
       Some ((blockNum', rest), w3)
     }"

lemma loop_step_measure:
  fixes j b :: u64
  assumes "j < b" and "unat b + unat s < 2 ^ 64" and "0 < unat s"
  shows "unat b - unat (j + s) < unat b - unat j"
proof -
  have "unat j < unat b" using assms(1) by (simp add: word_less_nat_alt)
  moreover have "unat (j + s) = unat j + unat s"
    using assms(2) \<open>unat j < unat b\<close> by (simp add: unat_add_lem [THEN iffD1])
  ultimately show ?thesis using assms(3) by simp
qed

lemma loop_step_BLOCK_SIZE:
  "j < (32768 :: u64) \<Longrightarrow> 32768 - unat (j + 8) < 32768 - unat j"
  using loop_step_measure [of j 32768 8] by simp

lemma loop_step_DOUB_IND_BLOCK_SIZE:
  "j < (35184372088832 :: u64) \<Longrightarrow> 35184372088832 - unat (j + 8) < 35184372088832 - unat j"
  using loop_step_measure [of j 35184372088832 8] by simp

lemma loop_step_NUM_DATA_BLOCKS:
  "j < (12 :: u64) \<Longrightarrow> 12 - unat (j + 1) < 12 - unat j"
  using loop_step_measure [of j 12 1] by simp

text \<open>
  The loop of \<open>writeIndirect\<close> over the slots of the indirect block:
  the relative offset, the data left and the block as the loop leaves them.
\<close>

function writeIndirect_loop ::
  "u64 \<Rightarrow> u64 \<Rightarrow> byte list \<Rightarrow> DataBlock \<Rightarrow> World
     \<Rightarrow> ((u64 \<times> byte list \<times> DataBlock) \<times> World) option" where
  "writeIndirect_loop j offset data indBlock w =
     (if j < BLOCK_SIZE then
        (if offset < BLOCK_SIZE \<and> 0 < length data then
           do {
             blockAddress \<leftarrow> slice indBlock (unat j) (unat (j + 8));
             ((blockNum, data'), w') \<leftarrow> writeBlock data offset (Uint64 blockAddress) w;
             indBlock' \<leftarrow> copy_at indBlock (unat j) (unat (j + 8)) (PutUint64 blockNum);
             writeIndirect_loop (j + 8) 0 data' indBlock' w'
           }
         else writeIndirect_loop (j + 8) (offset - BLOCK_SIZE) data indBlock w)
      else Some ((offset, data, indBlock), w))"
  by pat_completeness auto
termination
  by (relation "measure (\<lambda>(j, offset, data, indBlock, w). unat BLOCK_SIZE - unat j)")
     (auto simp: BLOCK_SIZE_def loop_step_BLOCK_SIZE)

declare writeIndirect_loop.simps [simp del]

text \<open>
  The block a write works on: the stored one, or, when \<open>getData\<close> reports an error, a
  new zero block under the next number of \<open>dataStream\<close>.
\<close>

definition fetch_or_new :: "u64 \<Rightarrow> World \<Rightarrow> ((DataBlock \<times> u64) \<times> World) option" where
  "fetch_or_new blockNum w =
     do {
       ((blk, err), w1) \<leftarrow> getData blockNum w;
       (case err of
          Some _ \<Rightarrow> (let (n, ds) = IntStream_next (dataStream w1)
                     in Some ((new_DataBlock, n), w1\<lparr>dataStream := ds\<rparr>))
        | None \<Rightarrow> Some ((blk, blockNum), w1))
     }"

definition writeIndirect ::
  "byte list \<Rightarrow> u64 \<Rightarrow> u64 \<Rightarrow> World \<Rightarrow> ((u64 \<times> byte list) \<times> World) option" where
  "writeIndirect data offset indBlockNum w =
     do {
       ((indBlock, indBlockNum'), w1) \<leftarrow> fetch_or_new indBlockNum w;
       ((_, data', indBlock'), w2) \<leftarrow> writeIndirect_loop 0 offset data indBlock w1;
       (_, w3) \<leftarrow> putData indBlockNum' indBlock' w2;
       Some ((indBlockNum', data'), w3)
     }"

function writeDoubIndirect_loop ::
  "u64 \<Rightarrow> u64 \<Rightarrow> byte list \<Rightarrow> DataBlock \<Rightarrow> World
     \<Rightarrow> ((u64 \<times> byte list \<times> DataBlock) \<times> World) option" where
  "writeDoubIndirect_loop j offset data doubBlock w =
     (if j < BLOCK_SIZE then
        (if offset < IND_BLOCK_SIZE \<and> 0 < length data then
           do {
             indBlockAddress \<leftarrow> slice doubBlock (unat j) (unat (j + 8));
             ((indBlockNum, data'), w') \<leftarrow> writeIndirect data offset (Uint64 indBlockAddress) w;
             doubBlock' \<leftarrow> copy_at doubBlock (unat j) (unat (j + 8)) (PutUint64 indBlockNum);
             writeDoubIndirect_loop (j + 8) 0 data' doubBlock' w'
           }
         else writeDoubIndirect_loop (j + 8) (offset - IND_BLOCK_SIZE) data doubBlock w)
      else Some ((offset, data, doubBlock), w))"
  by pat_completeness auto
termination
  by (relation "measure (\<lambda>(j, offset, data, doubBlock, w). unat BLOCK_SIZE - unat j)")
     (auto simp: BLOCK_SIZE_def loop_step_BLOCK_SIZE)

declare writeDoubIndirect_loop.simps [simp del]

definition writeDoubIndirect ::
  "byte list \<Rightarrow> u64 \<Rightarrow> u64 \<Rightarrow> World \<Rightarrow> ((u64 \<times> byte list) \<times> World) option" where
  "writeDoubIndirect data offset doubBlockNum w =
     do {
       ((doubBlock, doubBlockNum'), w1) \<leftarrow> fetch_or_new doubBlockNum w;
       ((_, data', doubBlock'), w2) \<leftarrow> writeDoubIndirect_loop 0 offset data doubBlock w1;
       (_, w3) \<leftarrow> putData doubBlockNum' doubBlock' w2;
       Some ((doubBlockNum', data'), w3)
     }"

text \<open>
  The loop of \<open>writeTripIndirect\<close> runs \<open>j\<close> up to \<open>DOUB_IND_BLOCK_SIZE\<close>, as the source
  does; the slice of the block at \<open>j\<close> panics once \<open>j\<close> reaches \<open>BLOCK_SIZE\<close>.
\<close>

function writeTripIndirect_loop ::
  "u64 \<Rightarrow> u64 \<Rightarrow> byte list \<Rightarrow> DataBlock \<Rightarrow> World
     \<Rightarrow> ((u64 \<times> byte list \<times> DataBlock) \<times> World) option" where
  "writeTripIndirect_loop j offset data tripBlock w =
     (if j < DOUB_IND_BLOCK_SIZE then
        (if offset < DOUB_IND_BLOCK_SIZE \<and> 0 < length data then
           do {
             doubBlockAddress \<leftarrow> slice tripBlock (unat j) (unat (j + 8));
             ((doubBlockNum, data'), w') \<leftarrow> writeDoubIndirect data offset (Uint64 doubBlockAddress) w;
             tripBlock' \<leftarrow> copy_at tripBlock (unat j) (unat (j + 8)) (PutUint64 doubBlockNum);
             writeTripIndirect_loop (j + 8) 0 data' tripBlock' w'
           }
         else writeTripIndirect_loop (j + 8) (offset - DOUB_IND_BLOCK_SIZE) data tripBlock w)
      else Some ((offset, data, tripBlock), w))"
  by pat_completeness auto
termination
  by (relation "measure (\<lambda>(j, offset, data, tripBlock, w). unat DOUB_IND_BLOCK_SIZE - unat j)")
     (auto simp: DOUB_IND_BLOCK_SIZE_def BLOCK_SIZE_def loop_step_DOUB_IND_BLOCK_SIZE)

declare writeTripIndirect_loop.simps [simp del]

definition writeTripIndirect ::
  "byte list \<Rightarrow> u64 \<Rightarrow> u64 \<Rightarrow> World \<Rightarrow> ((u64 \<times> byte list) \<times> World) option" where
  "writeTripIndirect data offset tripBlockNum w =
     do {
       ((tripBlock, tripBlockNum'), w1) \<leftarrow> fetch_or_new tripBlockNum w;
       ((_, data', tripBlock'), w2) \<leftarrow> writeTripIndirect_loop 0 offset data tripBlock w1;
       (_, w3) \<leftarrow> putData tripBlockNum' tripBlock' w2;
       Some ((tripBlockNum', data'), w3)
     }"

text \<open>The loop of \<open>writeDataBlocks\<close> over the direct blocks.\<close>

function writeDataBlocks_loop ::
  "u64 \<Rightarrow> u64 \<Rightarrow> byte list \<Rightarrow> Inode \<Rightarrow> World
     \<Rightarrow> ((u64 \<times> byte list \<times> Inode) \<times> World) option" where
  "writeDataBlocks_loop j offset data i w =
     (if j < NUM_DATA_BLOCKS then
        (if offset < BLOCK_SIZE \<and> 0 < length data then
           do {
             ((blockNum, data'), w') \<leftarrow> writeBlock data offset (Data i ! unat j) w;
             writeDataBlocks_loop (j + 1) 0 data' (i\<lparr>Data := (Data i)[unat j := blockNum]\<rparr>) w'
           }
         else writeDataBlocks_loop (j + 1) (offset - BLOCK_SIZE) data i w)
      else Some ((offset, data, i), w))"
  by pat_completeness auto
termination
  by (relation "measure (\<lambda>(j, offset, data, i, w). unat NUM_DATA_BLOCKS - unat j)")
     (auto simp: NUM_DATA_BLOCKS_def loop_step_NUM_DATA_BLOCKS)

declare writeDataBlocks_loop.simps [simp del]

text \<open>\<open>Inode.writeDataBlocks\<close>. Data left over at the end is only reported ("DATA TOO BIG").\<close>

definition writeDataBlocks :: "byte list \<Rightarrow> u64 \<Rightarrow> Inode \<Rightarrow> World \<Rightarrow> (Inode \<times> World) option" where
  "writeDataBlocks data0 offset0 i0 w0 =
     do {
       ((offset1, data1, i1), w1) \<leftarrow> writeDataBlocks_loop 0 offset0 data0 i0 w0;
       ((offset2, data2, i2), w2) \<leftarrow>
         (if 0 < length data1 \<and> offset1 < FIRST_DOUBLY_INDIRECT_BYTE then
            do {
              ((n, d), w') \<leftarrow> writeIndirect data1 offset1 (Data i1 ! IND_BLOCK) w1;
              Some ((0, d, i1\<lparr>Data := (Data i1)[IND_BLOCK := n]\<rparr>), w')
            }
          else Some ((offset1 - BLOCK_SIZE * BLOCK_SIZE, data1, i1), w1));
       ((offset3, data3, i3), w3) \<leftarrow>
         (if 0 < length data2 \<and> offset2 < FIRST_TRIPLY_INDIRECT_BYTE then
            do {
              ((n, d), w') \<leftarrow> writeDoubIndirect data2 offset2 (Data i2 ! DOUB_IND_BLOCK) w2;
              Some ((0, d, i2\<lparr>Data := (Data i2)[DOUB_IND_BLOCK := n]\<rparr>), w')
            }
          else Some ((offset2 - BLOCK_SIZE * BLOCK_SIZE * BLOCK_SIZE, data2, i2), w2));
       (if 0 < length data3 then
          do {
            ((n, d), w') \<leftarrow> writeTripIndirect data3 offset3 (Data i3 ! TRIP_IND_BLOCK) w3;
            Some (i3\<lparr>Data := (Data i3)[TRIP_IND_BLOCK := n]\<rparr>, w')
          }
        else Some (i3, w3))
     }"

text \<open>\<open>Inode.writeToData\<close>.\<close>

definition Inode_writeToData ::
  "byte list \<Rightarrow> u64 \<Rightarrow> 64 word \<Rightarrow> Inode \<Rightarrow> World \<Rightarrow> (Inode \<times> World) option" where
  "Inode_writeToData data0 offset now i0 w =
     (let sz = (of_nat (length data0) :: u64);
          i1 = updateSize (sz + offset) now i0
      in do {
        (data1, i2) \<leftarrow>
          (if offset < INODE_BUFFER_SIZE then
             (let writeEnd = (if sz - offset < INODE_BUFFER_SIZE then sz - offset
                              else INODE_BUFFER_SIZE);
                  writeLen = writeEnd - offset
              in do {
                src \<leftarrow> slice data0 0 (unat writeLen);
                buf \<leftarrow> copy_at (DataBuf i1) (unat offset) (unat writeEnd) src;
                rest \<leftarrow> slice_from data0 (unat writeLen);
                Some (rest, i1\<lparr>DataBuf := buf\<rparr>)
              })
           else Some (data0, i1));
        (if 0 < length data1 then
           (let newOffset = (if offset < INODE_BUFFER_SIZE then 0 else offset - INODE_BUFFER_SIZE)
            in writeDataBlocks data1 newOffset i2 w)
         else Some (i2, w))
      })"

subsection \<open>Reading\<close>

text \<open>
  \<open>readBlock\<close>: the buffer with the bytes read copied in, and the number of bytes left
  to read. The error of \<open>getData\<close> is ignored: a missing block reads as zeros.
\<close>

definition readBlock ::
  "byte list \<Rightarrow> u64 \<Rightarrow> u64 \<Rightarrow> u64 \<Rightarrow> World \<Rightarrow> ((byte list \<times> u64) \<times> World) option" where
  "readBlock data offset leftToRead blockNum w =
     do {
       ((block, err), w1) \<leftarrow> getData blockNum w;
       let readEnd = (if leftToRead + offset > BLOCK_SIZE then BLOCK_SIZE else offset + leftToRead);
       let readLen = readEnd - offset;
       let dataStart = (of_nat (length data) :: u64) - leftToRead;
       src \<leftarrow> slice block (unat offset) (unat readEnd);
       data' \<leftarrow> copy_at data (unat dataStart) (unat (dataStart + readLen)) src;
       Some ((data', leftToRead - readLen), w1)
     }"

text \<open>
  The loops of the indirect readers. Each also writes the block number it read back
  into its own copy of the indirect block, which is dropped when the function returns;
  the model leaves that copy alone.
\<close>

function readIndirect_loop ::
  "u64 \<Rightarrow> u64 \<Rightarrow> byte list \<Rightarrow> u64 \<Rightarrow> DataBlock \<Rightarrow> World
     \<Rightarrow> ((byte list \<times> u64) \<times> World) option" where
  "readIndirect_loop j offset data leftToRead indBlock w =
     (if j < BLOCK_SIZE then
        (if 0 < leftToRead \<and> offset < BLOCK_SIZE then
           do {
             blockAddress \<leftarrow> slice indBlock (unat j) (unat (j + 8));
             ((data', leftToRead'), w') \<leftarrow> readBlock data offset leftToRead (Uint64 blockAddress) w;
             readIndirect_loop (j + 8) 0 data' leftToRead' indBlock w'
           }
         else readIndirect_loop (j + 8) (offset - BLOCK_SIZE) data leftToRead indBlock w)
      else Some ((data, leftToRead), w))"
  by pat_completeness auto
termination
  by (relation "measure (\<lambda>(j, offset, data, leftToRead, indBlock, w). unat BLOCK_SIZE - unat j)")
     (auto simp: BLOCK_SIZE_def loop_step_BLOCK_SIZE)

declare readIndirect_loop.simps [simp del]

definition readIndirect ::
  "byte list \<Rightarrow> u64 \<Rightarrow> u64 \<Rightarrow> u64 \<Rightarrow> World \<Rightarrow> ((byte list \<times> u64) \<times> World) option" where
  "readIndirect data offset leftToRead indBlockNum w =
     do {
       ((indBlock, err), w1) \<leftarrow> getData indBlockNum w;
       readIndirect_loop 0 offset data leftToRead indBlock w1
     }"

function readDoubIndirect_loop ::
  "u64 \<Rightarrow> u64 \<Rightarrow> byte list \<Rightarrow> u64 \<Rightarrow> DataBlock \<Rightarrow> World
     \<Rightarrow> ((byte list \<times> u64) \<times> World) option" where
  "readDoubIndirect_loop j offset data leftToRead indBlock w =
     (if j < BLOCK_SIZE then
        (if 0 < leftToRead \<and> offset < IND_BLOCK_SIZE then
           do {
             blockAddress \<leftarrow> slice indBlock (unat j) (unat (j + 8));
             ((data', leftToRead'), w') \<leftarrow> readIndirect data offset leftToRead (Uint64 blockAddress) w;
             readDoubIndirect_loop (j + 8) 0 data' leftToRead' indBlock w'
           }
         else readDoubIndirect_loop (j + 8) (offset - IND_BLOCK_SIZE) data leftToRead indBlock w)
      else Some ((data, leftToRead), w))"
  by pat_completeness auto
termination
  by (relation "measure (\<lambda>(j, offset, data, leftToRead, indBlock, w). unat BLOCK_SIZE - unat j)")
     (auto simp: BLOCK_SIZE_def loop_step_BLOCK_SIZE)

declare readDoubIndirect_loop.simps [simp del]

definition readDoubIndirect ::
  "byte list \<Rightarrow> u64 \<Rightarrow> u64 \<Rightarrow> u64 \<Rightarrow> World \<Rightarrow> ((byte list \<times> u64) \<times> World) option" where
  "readDoubIndirect data offset leftToRead indBlockNum w =
     do {
       ((indBlock, err), w1) \<leftarrow> getData indBlockNum w;
       readDoubIndirect_loop 0 offset data leftToRead indBlock w1
     }"

function readTripIndirect_loop ::
  "u64 \<Rightarrow> u64 \<Rightarrow> byte list \<Rightarrow> u64 \<Rightarrow> DataBlock \<Rightarrow> World
     \<Rightarrow> ((byte list \<times> u64) \<times> World) option" where
  "readTripIndirect_loop j offset data leftToRead indBlock w =
     (if j < BLOCK_SIZE then
        (if 0 < leftToRead \<and> offset < DOUB_IND_BLOCK_SIZE then
           do {
             blockAddress \<leftarrow> slice indBlock (unat j) (unat (j + 8));
             ((data', leftToRead'), w') \<leftarrow> readDoubIndirect data offset leftToRead (Uint64 blockAddress) w;
             readTripIndirect_loop (j + 8) 0 data' leftToRead' indBlock w'
           }
         else readTripIndirect_loop (j + 8) (offset - DOUB_IND_BLOCK_SIZE) data leftToRead indBlock w)
      else Some ((data, leftToRead), w))"
  by pat_completeness auto
termination
  by (relation "measure (\<lambda>(j, offset, data, leftToRead, indBlock, w). unat BLOCK_SIZE - unat j)")
     (auto simp: BLOCK_SIZE_def loop_step_BLOCK_SIZE)

declare readTripIndirect_loop.simps [simp del]

definition readTripIndirect ::
  "byte list \<Rightarrow> u64 \<Rightarrow> u64 \<Rightarrow> u64 \<Rightarrow> World \<Rightarrow> ((byte list \<times> u64) \<times> World) option" where
  "readTripIndirect data offset leftToRead indBlockNum w =
     do {
       ((indBlock, err), w1) \<leftarrow> getData indBlockNum w;
       readTripIndirect_loop 0 offset data leftToRead indBlock w1
     }"

function readDataBlocks_loop ::
  "u64 \<Rightarrow> u64 \<Rightarrow> byte list \<Rightarrow> u64 \<Rightarrow> Inode \<Rightarrow> World
     \<Rightarrow> ((u64 \<times> byte list \<times> u64) \<times> World) option" where
  "readDataBlocks_loop j offset data leftToRead i w =
     (if j < NUM_DATA_BLOCKS then
        (if 0 < leftToRead \<and> offset < BLOCK_SIZE then
           do {
             ((data', leftToRead'), w') \<leftarrow> readBlock data offset leftToRead (Data i ! unat j) w;
             readDataBlocks_loop (j + 1) 0 data' leftToRead' i w'
           }
         else readDataBlocks_loop (j + 1) (offset - BLOCK_SIZE) data leftToRead i w)
      else Some ((offset, data, leftToRead), w))"
  by pat_completeness auto
termination
  by (relation "measure (\<lambda>(j, offset, data, leftToRead, i, w). unat NUM_DATA_BLOCKS - unat j)")
     (auto simp: NUM_DATA_BLOCKS_def loop_step_NUM_DATA_BLOCKS)

declare readDataBlocks_loop.simps [simp del]

text \<open>\<open>Inode.readDataBlocks\<close>. Bytes left unread at the end are only reported ("READ TOO BIG").\<close>

definition readDataBlocks ::
  "byte list \<Rightarrow> u64 \<Rightarrow> u64 \<Rightarrow> Inode \<Rightarrow> World \<Rightarrow> (byte list \<times> World) option" where
  "readDataBlocks data0 offset0 leftToRead0 i w0 =
     do {
       ((offset1, data1, left1), w1) \<leftarrow> readDataBlocks_loop 0 offset0 data0 leftToRead0 i w0;
       ((offset2, data2, left2), w2) \<leftarrow>
         (if 0 < left1 \<and> offset1 < FIRST_DOUBLY_INDIRECT_BYTE then
            do {
              ((d, l), w') \<leftarrow> readIndirect data1 offset1 left1 (Data i ! IND_BLOCK) w1;
              Some ((0, d, l), w')
            }
          else Some ((offset1 - BLOCK_SIZE * BLOCK_SIZE, data1, left1), w1));
       ((offset3, data3, left3), w3) \<leftarrow>
         (if 0 < left2 \<and> offset2 < FIRST_TRIPLY_INDIRECT_BYTE then
            do {
              ((d, l), w') \<leftarrow> readDoubIndirect data2 offset2 left2 (Data i ! DOUB_IND_BLOCK) w2;
              Some ((0, d, l), w')
            }
          else Some ((offset2 - BLOCK_SIZE * BLOCK_SIZE * BLOCK_SIZE, data2, left2), w2));
       (if 0 < left3 then
          do {
            ((d, l), w') \<leftarrow> readTripIndirect data3 offset3 left3 (Data i ! TRIP_IND_BLOCK) w3;
            Some (d, w')
          }
        else Some (data3, w3))
     }"

text \<open>
  \<open>Inode.readFromData\<close>: \<open>Inl\<close> the error, or \<open>Inr\<close> the bytes read. \<open>make([]byte, size)\<close>
  is a list of \<open>size\<close> zeros.
\<close>

definition Inode_readFromData ::
  "u64 \<Rightarrow> u64 \<Rightarrow> Inode \<Rightarrow> World \<Rightarrow> ((error + byte list) \<times> World) option" where
  "Inode_readFromData offset0 sz i w =
     (if offset0 \<ge> Size i then Some (Inl OffsetPastEnd, w)
      else
        (let data0 = replicate (unat sz) (0 :: byte); leftToRead0 = sz in
         do {
           (data1, leftToRead1, offset1) \<leftarrow>
             (if offset0 < INODE_BUFFER_SIZE then
                (let readEnd = (if leftToRead0 + offset0 < INODE_BUFFER_SIZE
                                then leftToRead0 + offset0 else INODE_BUFFER_SIZE);
                     readLen = readEnd - offset0
                 in do {
                   src \<leftarrow> slice (DataBuf i) (unat offset0) (unat readEnd);
                   d \<leftarrow> copy_at data0 0 (unat readLen) src;
                   Some (d, leftToRead0 - readLen, 0)
                 })
              else Some (data0, leftToRead0, offset0));
           (if 0 < leftToRead1 then
              do {
                (d, w') \<leftarrow> readDataBlocks data1 offset1 leftToRead1 i w;
                Some (Inr d, w')
              }
            else Some (Inr data1, w))
         }))"

subsection \<open>Deleting\<close>

function deleteIndirect_loop ::
  "u64 \<Rightarrow> u64 \<Rightarrow> DataBlock \<Rightarrow> World \<Rightarrow> ((u64 \<times> error option) \<times> World) option" where
  "deleteIndirect_loop j numBlocks indBlock w =
     (if j < BLOCK_SIZE \<and> 0 < numBlocks then
        do {
          blockAddress \<leftarrow> slice indBlock (unat j) (unat (j + 8));
          (case deleteBlock (Uint64 blockAddress) w of
             (Some err, w') \<Rightarrow> Some ((0, Some err), w')
           | (None, w') \<Rightarrow> deleteIndirect_loop (j + 8) (numBlocks - 1) indBlock w')
        }
      else Some ((numBlocks, None), w))"
  by pat_completeness auto
termination
  by (relation "measure (\<lambda>(j, numBlocks, indBlock, w). unat BLOCK_SIZE - unat j)")
     (auto simp: BLOCK_SIZE_def loop_step_BLOCK_SIZE)

declare deleteIndirect_loop.simps [simp del]

text \<open>
  \<open>deleteIndirect\<close>, \<open>deleteDoubIndirect\<close>, \<open>deleteTripIndirect\<close>: the count left and
  the error. After the loop each deletes the indirect block itself.
\<close>

definition deleteIndirect :: "u64 \<Rightarrow> u64 \<Rightarrow> World \<Rightarrow> ((u64 \<times> error option) \<times> World) option" where
  "deleteIndirect numBlocks indBlockNum w =
     do {
       ((indBlock, err), w1) \<leftarrow> getData indBlockNum w;
       ((numBlocks', err'), w2) \<leftarrow> deleteIndirect_loop 0 numBlocks indBlock w1;
       (case err' of
          Some e \<Rightarrow> Some ((0, Some e), w2)
        | None \<Rightarrow>
            (case deleteBlock indBlockNum w2 of
               (Some e, w3) \<Rightarrow> Some ((0, Some e), w3)
             | (None, w3) \<Rightarrow> Some ((numBlocks', None), w3)))
     }"

function deleteDoubIndirect_loop ::
  "u64 \<Rightarrow> u64 \<Rightarrow> DataBlock \<Rightarrow> World \<Rightarrow> ((u64 \<times> error option) \<times> World) option" where
  "deleteDoubIndirect_loop j numBlocks indBlock w =
     (if j < BLOCK_SIZE \<and> 0 < numBlocks then
        do {
          blockAddress \<leftarrow> slice indBlock (unat j) (unat (j + 8));
          ((numBlocks', err), w') \<leftarrow> deleteIndirect numBlocks (Uint64 blockAddress) w;
          (case err of
             Some e \<Rightarrow> Some ((0, Some e), w')
           | None \<Rightarrow> deleteDoubIndirect_loop (j + 8) numBlocks' indBlock w')
        }
      else Some ((numBlocks, None), w))"
  by pat_completeness auto
termination
  by (relation "measure (\<lambda>(j, numBlocks, indBlock, w). unat BLOCK_SIZE - unat j)")
     (auto simp: BLOCK_SIZE_def loop_step_BLOCK_SIZE)

declare deleteDoubIndirect_loop.simps [simp del]

definition deleteDoubIndirect :: "u64 \<Rightarrow> u64 \<Rightarrow> World \<Rightarrow> ((u64 \<times> error option) \<times> World) option" where
  "deleteDoubIndirect numBlocks indBlockNum w =
     do {
       ((indBlock, err), w1) \<leftarrow> getData indBlockNum w;
       ((numBlocks', err'), w2) \<leftarrow> deleteDoubIndirect_loop 0 numBlocks indBlock w1;
       (case err' of
          Some e \<Rightarrow> Some ((0, Some e), w2)
        | None \<Rightarrow>
            (case deleteBlock indBlockNum w2 of
               (Some e, w3) \<Rightarrow> Some ((0, Some e), w3)
             | (None, w3) \<Rightarrow> Some ((numBlocks', None), w3)))
     }"

function deleteTripIndirect_loop ::
  "u64 \<Rightarrow> u64 \<Rightarrow> DataBlock \<Rightarrow> World \<Rightarrow> ((u64 \<times> error option) \<times> World) option" where
  "deleteTripIndirect_loop j numBlocks indBlock w =
     (if j < BLOCK_SIZE \<and> 0 < numBlocks then
        do {
          blockAddress \<leftarrow> slice indBlock (unat j) (unat (j + 8));
          ((numBlocks', err), w') \<leftarrow> deleteDoubIndirect numBlocks (Uint64 blockAddress) w;
          (case err of
             Some e \<Rightarrow> Some ((0, Some e), w')
           | None \<Rightarrow> deleteTripIndirect_loop (j + 8) numBlocks' indBlock w')
        }
      else Some ((numBlocks, None), w))"
  by pat_completeness auto
termination
  by (relation "measure (\<lambda>(j, numBlocks, indBlock, w). unat BLOCK_SIZE - unat j)")
     (auto simp: BLOCK_SIZE_def loop_step_BLOCK_SIZE)

declare deleteTripIndirect_loop.simps [simp del]

definition deleteTripIndirect :: "u64 \<Rightarrow> u64 \<Rightarrow> World \<Rightarrow> ((u64 \<times> error option) \<times> World) option" where
  "deleteTripIndirect numBlocks indBlockNum w =
     do {
       ((indBlock, err), w1) \<leftarrow> getData indBlockNum w;
       ((numBlocks', err'), w2) \<leftarrow> deleteTripIndirect_loop 0 numBlocks indBlock w1;
       (case err' of
          Some e \<Rightarrow> Some ((0, Some e), w2)
        | None \<Rightarrow>
            (case deleteBlock indBlockNum w2 of
               (Some e, w3) \<Rightarrow> Some ((0, Some e), w3)
             | (None, w3) \<Rightarrow> Some ((numBlocks', None), w3)))
     }"

text \<open>The loop of \<open>deleteAllData\<close> over the direct blocks.\<close>

function deleteAllData_loop ::
  "u64 \<Rightarrow> u64 \<Rightarrow> Inode \<Rightarrow> World \<Rightarrow> (u64 \<times> error option) \<times> World" where
  "deleteAllData_loop j numBlocksToDelete i w =
     (if j < NUM_DATA_BLOCKS \<and> 0 < numBlocksToDelete then
        (case deleteBlock (Data i ! unat j) w of
           (Some err, w') \<Rightarrow> ((numBlocksToDelete, Some err), w')
         | (None, w') \<Rightarrow> deleteAllData_loop (j + 1) (numBlocksToDelete - 1) i w')
      else ((numBlocksToDelete, None), w))"
  by pat_completeness auto
termination
  by (relation "measure (\<lambda>(j, numBlocksToDelete, i, w). unat NUM_DATA_BLOCKS - unat j)")
     (auto simp: NUM_DATA_BLOCKS_def loop_step_NUM_DATA_BLOCKS)

declare deleteAllData_loop.simps [simp del]

text \<open>The count \<open>deleteAllData\<close> starts from.\<close>

definition numBlocksToDelete_of :: "Inode \<Rightarrow> u64" where
  "numBlocksToDelete_of i =
     (if Size i \<le> INODE_BUFFER_SIZE then 0
      else ((Size i - INODE_BUFFER_SIZE) div BLOCK_SIZE) + 1)"

text \<open>\<open>Inode.deleteAllData\<close>.\<close>

definition Inode_deleteAllData :: "Inode \<Rightarrow> World \<Rightarrow> (error option \<times> World) option" where
  "Inode_deleteAllData i w =
     (case deleteAllData_loop 0 (numBlocksToDelete_of i) i w of
        ((n0, Some err), w0) \<Rightarrow> Some (Some err, w0)
      | ((n0, None), w0) \<Rightarrow>
          do {
            ((n1, err1), w1) \<leftarrow>
              (if 0 < n0 then deleteIndirect n0 (Data i ! IND_BLOCK) w0 else Some ((n0, None), w0));
            (case err1 of
               Some e \<Rightarrow> Some (Some e, w1)
             | None \<Rightarrow>
                 do {
                   ((n2, err2), w2) \<leftarrow>
                     (if 0 < n1 then deleteDoubIndirect n1 (Data i ! DOUB_IND_BLOCK) w1
                      else Some ((n1, None), w1));
                   (case err2 of
                      Some e \<Rightarrow> Some (Some e, w2)
                    | None \<Rightarrow>
                        do {
                          ((n3, err3), w3) \<leftarrow>
                            (if 0 < n2 then deleteTripIndirect n2 (Data i ! TRIP_IND_BLOCK) w2
                             else Some ((n2, None), w2));
                          (case err3 of
                             Some e \<Rightarrow> Some (Some e, w3)
                           | None \<Rightarrow>
                               if 0 < n3 then Some (Some DeleteTooLarge, w3)
                               else Some (None, w3))
                        })
                 })
          })"

subsection \<open>Loading and storing inodes\<close>

text \<open>
  \<open>binary.Write\<close> and \<open>binary.Read\<close> of an \<open>Inode\<close>, little-endian, field after
  field: \<open>Size\<close> (8 bytes), \<open>LinkCount\<close> (2), \<open>UnixTime\<close> (8), \<open>IsDir\<close> (1),
  \<open>DataBuf\<close> (373) and the 15 numbers of \<open>Data\<close> (8 each): \<open>INODE_SIZE\<close> bytes.
\<close>

definition PutUint16 :: "16 word \<Rightarrow> byte list" where
  "PutUint16 v = [ucast v, ucast (drop_bit 8 v)]"

definition Uint16 :: "byte list \<Rightarrow> 16 word" where
  "Uint16 b = foldr (\<lambda>x acc. ucast x OR push_bit 8 acc) (take 2 b) 0"

definition encode_Inode :: "Inode \<Rightarrow> byte list" where
  "encode_Inode i =
     PutUint64 (Size i) @ PutUint16 (LinkCount i) @ PutUint64 (UnixTime i) @ [IsDir i]
       @ DataBuf i @ concat (map PutUint64 (Data i))"

definition decode_Inode :: "byte list \<Rightarrow> Inode" where
  "decode_Inode b =
     \<lparr>Size = Uint64 (take 8 b),
      LinkCount = Uint16 (take 2 (drop 8 b)),
      UnixTime = Uint64 (take 8 (drop 10 b)),
      IsDir = b ! 18,
      DataBuf = take (unat INODE_BUFFER_SIZE) (drop 19 b),
      Data = map (\<lambda>k. Uint64 (take 8 (drop (19 + unat INODE_BUFFER_SIZE + 8 * k) b))) [0..<15]\<rparr>"

text \<open>\<open>new(Inode)\<close>: every field zero.\<close>

definition new_Inode :: Inode where
  "new_Inode = createInode 0 0"

text \<open>\<open>getInode\<close>.\<close>

definition getInode :: "u64 \<Rightarrow> World \<Rightarrow> ((Inode \<times> error option) \<times> World) option" where
  "getInode inodeNum w =
     do {
       ((inodeBlock, err), w1) \<leftarrow> getInodeBlock inodeNum w;
       let start = (inodeNum mod (BLOCK_SIZE div INODE_SIZE)) * INODE_SIZE;
       let end' = start + INODE_SIZE;
       inodeData \<leftarrow> slice inodeBlock (unat start) (unat end');
       (case err of
          None \<Rightarrow> Some ((decode_Inode inodeData, None), w1)
        | Some e \<Rightarrow> Some ((new_Inode, Some e), w1))
     }"

text \<open>
  \<open>putInode\<close>. The two \<open>append\<close>s write into the array of the block itself, which has
  the room: the block with the encoded inode in place of the bytes from \<open>start\<close> to
  \<open>end\<close>.
\<close>

definition putInode :: "Inode \<Rightarrow> u64 \<Rightarrow> World \<Rightarrow> (error option \<times> World) option" where
  "putInode inode inodeNum w =
     do {
       ((inodeBlock0, err), w1) \<leftarrow> getInodeBlock inodeNum w;
       (case (case err of
                Some e \<Rightarrow>
                  if inodeNum mod (BLOCK_SIZE div INODE_SIZE) \<noteq> 0 \<and> inodeNum \<noteq> 1 then Inl e
                  else Inr new_DataBlock
              | None \<Rightarrow> Inr inodeBlock0) of
          Inl e \<Rightarrow> Some (Some e, w1)
        | Inr inodeBlock \<Rightarrow>
            do {
              let start = (inodeNum mod (BLOCK_SIZE div INODE_SIZE)) * INODE_SIZE;
              let end' = start + INODE_SIZE;
              let inodeData = encode_Inode inode;
              front \<leftarrow> slice inodeBlock 0 (unat start);
              back \<leftarrow> slice_from inodeBlock (unat end');
              let newData = front @ inodeData @ back;
              inodeBlock' \<leftarrow> copy_at inodeBlock 0 (length inodeBlock) newData;
              putInodeBlock inodeNum inodeBlock' w1
            })
     }"

section \<open>Directory tables (inodeTable.go)\<close>

text \<open>
  \<open>Table\<close> is a Go map from names to inode numbers, modelled as an association list
  with one entry per name; the order of the list is the order in which the map is
  iterated. A name the map does not hold reads as 0.
\<close>

type_synonym InodeTable = "(string \<times> u64) list"

definition InodeTable_add :: "string \<Rightarrow> u64 \<Rightarrow> InodeTable \<Rightarrow> InodeTable" where
  "InodeTable_add fileName ino t = AList.update fileName ino t"

definition InodeTable_delete :: "string \<Rightarrow> InodeTable \<Rightarrow> InodeTable" where
  "InodeTable_delete fileName t = AList.delete fileName t"

definition InodeTable_init :: "u64 \<Rightarrow> u64 \<Rightarrow> InodeTable" where
  "InodeTable_init parentInode selfInode =
     InodeTable_add ''.'' selfInode (InodeTable_add ''..'' parentInode [])"

definition Table_get :: "InodeTable \<Rightarrow> string \<Rightarrow> u64" where
  "Table_get t name = (case map_of t name of None \<Rightarrow> 0 | Some n \<Rightarrow> n)"

text \<open>
  The gob stream of a \<open>map[string]uint64\<close>: the message defining type 65 as a map from
  \<open>string\<close> to \<open>uint\<close> (15 fixed bytes), then the value message: its byte length, the
  type id, a zero byte, the number of entries, and each entry as its key (length, then
  bytes) and its value.
\<close>

definition gob_string :: "string \<Rightarrow> byte list" where
  "gob_string str = gob_uint (of_nat (length str)) @ map (\<lambda>c. of_nat (of_char c)) str"

definition gob_read_string :: "byte list \<Rightarrow> (string \<times> byte list) option" where
  "gob_read_string bs =
     (case gob_read_uint bs of
        None \<Rightarrow> None
      | Some (n, rest) \<Rightarrow>
          if length rest < unat n then None
          else Some (map (\<lambda>b. char_of (unat b)) (take (unat n) rest), drop (unat n) rest))"

fun gob_read_entries :: "nat \<Rightarrow> byte list \<Rightarrow> ((string \<times> u64) list \<times> byte list) option" where
  "gob_read_entries 0 bs = Some ([], bs)"
| "gob_read_entries (Suc k) bs =
     (case gob_read_string bs of
        None \<Rightarrow> None
      | Some (name, rest) \<Rightarrow>
          (case gob_read_uint rest of
             None \<Rightarrow> None
           | Some (v, rest') \<Rightarrow>
               (case gob_read_entries k rest' of
                  None \<Rightarrow> None
                | Some (es, rest'') \<Rightarrow> Some ((name, v) # es, rest''))))"

definition gob_map_typedef :: "byte list" where
  "gob_map_typedef =
     [0x0E, 0xFF, 0x81, 0x04, 0x01, 0x02, 0xFF, 0x82, 0x00, 0x01, 0x0C, 0x01, 0x06, 0x00, 0x00]"

definition gob_encode_table :: "InodeTable \<Rightarrow> byte list" where
  "gob_encode_table t =
     (let body = gob_value_prefix @ gob_uint (of_nat (length t))
                   @ concat (map (\<lambda>(name, v). gob_string name @ gob_uint v) t)
      in gob_map_typedef @ gob_uint (of_nat (length body)) @ body)"

definition gob_decode_table :: "byte list \<Rightarrow> (string \<times> u64) list option" where
  "gob_decode_table bs =
     (if take (length gob_map_typedef) bs \<noteq> gob_map_typedef then None
      else (case gob_read_uint (drop (length gob_map_typedef) bs) of
              None \<Rightarrow> None
            | Some (n, rest) \<Rightarrow>
                if length rest < unat n then None
                else (let body = take (unat n) rest in
                      if take 3 body \<noteq> gob_value_prefix then None
                      else (case gob_read_uint (drop 3 body) of
                              None \<Rightarrow> None
                            | Some (cnt, elems) \<Rightarrow>
                                (case gob_read_entries (unat cnt) elems of
                                   None \<Rightarrow> None
                                 | Some (es, left) \<Rightarrow> if left = [] then Some es else None)))))"

definition InodeTable_MarshalBinary :: "InodeTable \<Rightarrow> byte list" where
  "InodeTable_MarshalBinary t = gob_encode_table t"

text \<open>
  \<open>InodeTable.UnmarshalBinary\<close> into a new table: the decoder stores every entry of the
  stream into the map; on an error the map stays empty.
\<close>

definition InodeTable_UnmarshalBinary :: "byte list \<Rightarrow> InodeTable \<times> error option" where
  "InodeTable_UnmarshalBinary data =
     (case gob_decode_table data of
        None \<Rightarrow> ([], Some GobError)
      | Some es \<Rightarrow> (fold (\<lambda>(name, v) t. AList.update name v t) es [], None))"

text \<open>\<open>Inode.init\<close>.\<close>

definition Inode_init :: "u64 \<Rightarrow> u64 \<Rightarrow> 64 word \<Rightarrow> Inode \<Rightarrow> World \<Rightarrow> (Inode \<times> World) option" where
  "Inode_init parentNum thisNum now i w =
     do {
       (i1, w1) \<leftarrow>
         (if IsDir i = 1 then
            (let tableData = InodeTable_MarshalBinary (InodeTable_init parentNum thisNum) in
             do {
               (i', w') \<leftarrow> Inode_writeToData tableData 0 now i w;
               Some (updateSize (of_nat (length tableData)) now i', w')
             })
          else Some (i, w));
       Some (i1\<lparr>LinkCount := 1\<rparr>, w1)
     }"

section \<open>Directories (dir.go)\<close>

text \<open>
  A \<open>Dir\<close> holds its own copy of the directory's inode, the inode's number, and the
  inode stream of the file system.
\<close>

record Dir =
  inode :: Inode
  inodeNum :: u64
  inodeStream :: IntStream

text \<open>\<open>getTable\<close>: the table read from the inode's data, and the error of the read.\<close>

definition getTable :: "Inode \<Rightarrow> World \<Rightarrow> ((InodeTable \<times> error option) \<times> World) option" where
  "getTable ino w =
     do {
       (r, w1) \<leftarrow> Inode_readFromData 0 (Size ino) ino w;
       let (tableData, err) = (case r of Inl e \<Rightarrow> ([], Some e) | Inr d \<Rightarrow> (d, None));
       Some ((fst (InodeTable_UnmarshalBinary tableData), err), w1)
     }"

text \<open>\<open>Dir.removeFile\<close>: the inode number the name had and the error.\<close>

definition Dir_removeFile ::
  "string \<Rightarrow> 64 word \<Rightarrow> Dir \<Rightarrow> World \<Rightarrow> ((u64 \<times> error option) \<times> Dir \<times> World) option" where
  "Dir_removeFile name now d w =
     do {
       (r, w1) \<leftarrow> Inode_readFromData 0 (Size (inode d)) (inode d) w;
       let data = (case r of Inl e \<Rightarrow> [] | Inr x \<Rightarrow> x);
       let table = fst (InodeTable_UnmarshalBinary data);
       let num = Table_get table name;
       (if num = 0 then Some ((0, Some ENOENT), d, w1)
        else
          do {
            let data' = InodeTable_MarshalBinary (InodeTable_delete name table);
            (i', w2) \<leftarrow> Inode_writeToData data' 0 now (inode d) w1;
            (_, w3) \<leftarrow> putInode i' (inodeNum d) w2;
            Some ((num, None), d\<lparr>inode := i'\<rparr>, w3)
          })
     }"

text \<open>
  \<open>Dir.Remove\<close>; \<open>name\<close> and \<open>reqDir\<close> are the fields \<open>Name\<close> and \<open>Dir\<close> of the
  request. It returns the error, the directory node and the world.
\<close>

definition Dir_Remove ::
  "string \<Rightarrow> bool \<Rightarrow> 64 word \<Rightarrow> Dir \<Rightarrow> World \<Rightarrow> (error option \<times> Dir \<times> World) option" where
  "Dir_Remove name reqDir now d w =
     do {
       ((table, _), w1) \<leftarrow> getTable (inode d) w;
       let num = Table_get table name;
       (if num = 0 then Some (Some ENOENT, d, w1)
        else
          do {
            ((ino, err), w2) \<leftarrow> getInode num w1;
            (case err of
               Some e \<Rightarrow> Some (Some e, d, w2)
             | None \<Rightarrow>
                 do {
                   (chk, w3) \<leftarrow>
                     (if reqDir \<and> IsDir ino = 1 then
                        do {
                          ((removeTable, terr), w') \<leftarrow> getTable ino w2;
                          (case terr of
                             Some e \<Rightarrow> Some (Some e, w')
                           | None \<Rightarrow>
                               if length removeTable \<noteq> 2 then Some (Some NotEmpty, w')
                               else Some (None, w'))
                        }
                      else Some (None, w2));
                   (case chk of
                      Some e \<Rightarrow> Some (Some e, d, w3)
                    | None \<Rightarrow>
                        (let ino1 = ino\<lparr>LinkCount := LinkCount ino - 1\<rparr> in
                         do {
                           (derr, d4, w4) \<leftarrow>
                             (if LinkCount ino1 = 0 then
                                do {
                                  (e, w') \<leftarrow> Inode_deleteAllData ino1 w3;
                                  (case e of
                                     Some x \<Rightarrow> Some (Some x, d, w')
                                   | None \<Rightarrow>
                                       Some (None,
                                             d\<lparr>inodeStream := IntStream_put num (inodeStream d)\<rparr>,
                                             w'))
                                }
                              else Some (None, d, w3));
                           (case derr of
                              Some x \<Rightarrow> Some (Some x, d4, w4)
                            | None \<Rightarrow>
                                do {
                                  (_, w5) \<leftarrow> putInode ino1 num w4;
                                  ((_, rerr), d6, w6) \<leftarrow> Dir_removeFile name now d4 w5;
                                  Some (rerr, d6, w6)
                                })
                         }))
                 })
          })
     }"

section \<open>The superblock (fs.go)\<close>

record FS =
  fs_inodeStream :: IntStream
  rootInode :: u64

text \<open>
  The loop of \<open>makeSuperblocks\<close> over the continuation blocks: \<open>k\<close> iterations are
  left (\<open>j\<close> runs from 1 to \<open>numBlocksNeeded - 1\<close>).
\<close>

fun makeSuperblocks_loop :: "nat \<Rightarrow> byte list \<Rightarrow> DataBlock list option" where
  "makeSuperblocks_loop 0 inodeListData = Some []"
| "makeSuperblocks_loop (Suc k) inodeListData =
     (let writeEnd = (if (of_nat (length inodeListData) :: u64) > BLOCK_SIZE then BLOCK_SIZE
                      else of_nat (length inodeListData))
      in do {
        src \<leftarrow> slice inodeListData 0 (unat writeEnd);
        block \<leftarrow> copy_at new_DataBlock 0 (unat writeEnd) src;
        rest \<leftarrow> slice_from inodeListData (unat writeEnd);
        blocks \<leftarrow> makeSuperblocks_loop k rest;
        Some (block # blocks)
      })"

text \<open>
  \<open>makeSuperblocks\<close>; \<open>inode\<close> and \<open>data\<close> are the two 8-byte arrays of
  \<open>compressStream\<close>.
\<close>

definition makeSuperblocks ::
  "byte list \<Rightarrow> byte list \<Rightarrow> u64 \<Rightarrow> byte list \<Rightarrow> DataBlock list option" where
  "makeSuperblocks inode_bytes data_bytes root inodeListData =
     (let inodeListSize = (of_nat (length inodeListData) :: u64);
          rootBuf = PutUint64 root;
          listSizeBuf = PutUint64 inodeListSize;
          super0 = take 8 inode_bytes @ take 8 data_bytes @ rootBuf @ listSizeBuf @ drop 32 new_DataBlock;
          writeEnd = (if inodeListSize + 32 > BLOCK_SIZE then BLOCK_SIZE else inodeListSize + 32)
      in do {
        src \<leftarrow> slice inodeListData 0 (unat (writeEnd - 32));
        super \<leftarrow> copy_at super0 32 (unat writeEnd) src;
        rest \<leftarrow> slice_from inodeListData (unat (writeEnd - 32));
        let numBlocksNeeded = 1 + (of_nat (length rest) :: u64) div BLOCK_SIZE;
        blocks \<leftarrow> makeSuperblocks_loop (unat numBlocksNeeded - 1) rest;
        Some (super # blocks)
      })"

text \<open>
  The loop of \<open>makeFs\<close> over the continuation blocks \<open>super1, super2, ...\<close>: the
  list data, the size left and the amount read as the loop leaves them.
\<close>

function makeFs_loop ::
  "u64 \<Rightarrow> u64 \<Rightarrow> byte list \<Rightarrow> u64 \<Rightarrow> u64 \<Rightarrow> World
     \<Rightarrow> ((byte list \<times> u64 \<times> u64) \<times> World) option" where
  "makeFs_loop i numBlocksNeeded listData listSize amountRead w =
     (if i < numBlocksNeeded then
        do {
          ((block, err), w1) \<leftarrow> getDataByKey (SuperKey (unat i)) w;
          let readEnd = (if listSize < BLOCK_SIZE then listSize else BLOCK_SIZE);
          src \<leftarrow> slice block 0 (unat readEnd);
          listData' \<leftarrow> copy_at listData (unat amountRead) (unat (amountRead + readEnd)) src;
          makeFs_loop (i + 1) numBlocksNeeded listData' (listSize - readEnd) (amountRead + readEnd) w1
        }
      else Some ((listData, listSize, amountRead), w))"
  by pat_completeness auto
termination
proof (relation "measure (\<lambda>(i, n, listData, listSize, amountRead, w). unat n - unat i)", goal_cases)
  case 1
  show ?case by simp
next
  case (2 i n listData listSize amountRead w x xa y xb ya xc xd)
  have "unat i < unat n" using 2(1) by (simp add: word_less_nat_alt)
  moreover have "unat n < 2 ^ 64" using unsigned_less [of n] by simp
  ultimately have "unat i + unat (1 :: u64) < 2 ^ LENGTH(64)" by simp
  then have "unat (i + 1) = unat i + 1"
    by (simp add: unat_add_lem [THEN iffD1])
  with \<open>unat i < unat n\<close> show ?case by simp
qed

declare makeFs_loop.simps [simp del]

text \<open>
  \<open>makeFs\<close>: the file system read from the first superblock, and the world with the
  global \<open>dataStream\<close> it sets. \<open>UnmarshalBinary\<close> ends the process on a decoding
  error: \<open>Inl\<close>.
\<close>

definition makeFs :: "DataBlock \<Rightarrow> World \<Rightarrow> ((error + FS) \<times> World) option" where
  "makeFs super w0 =
     do {
       rootBytes \<leftarrow> slice super 16 24;
       sizeBytes \<leftarrow> slice super 24 32;
       let root = Uint64 rootBytes;
       let listSize0 = Uint64 sizeBytes;
       inodeBytes \<leftarrow> slice super 0 8;
       let inodeStream0 = decompressStream inodeBytes \<lparr>stack = [], lastInt = 0\<rparr>;
       dataBytes \<leftarrow> slice super 8 16;
       let w = w0\<lparr>dataStream := (decompressStream dataBytes \<lparr>stack = [], lastInt = 0\<rparr>)\<lparr>stack := []\<rparr>\<rparr>;
       let readEnd = (if listSize0 < BLOCK_SIZE - 32 then listSize0 + 32 else BLOCK_SIZE);
       let listData0 = replicate (unat listSize0) (0 :: byte);
       src \<leftarrow> slice super 32 (unat readEnd);
       listData1 \<leftarrow> copy_at listData0 0 (unat (readEnd - 32)) src;
       let listSize1 = listSize0 - (readEnd - 32);
       let amountRead = readEnd;
       let numBlocksNeeded = 1 + listSize1 div BLOCK_SIZE;
       ((listData, listSize, _), w1) \<leftarrow> makeFs_loop 1 numBlocksNeeded listData1 listSize1 amountRead w;
       (if 0 < listSize then
          (case IntStream_UnmarshalBinary listData inodeStream0 of
             Inl e \<Rightarrow> Some (Inl e, w1)
           | Inr s \<Rightarrow> Some (Inr \<lparr>fs_inodeStream = s, rootInode = root\<rparr>, w1))
        else Some (Inr \<lparr>fs_inodeStream = inodeStream0\<lparr>stack := []\<rparr>, rootInode = root\<rparr>, w1))
     }"

section \<open>Properties of the allocator\<close>

lemma nexts_puts: "nexts (length ns) (fold IntStream_put ns s) = (rev ns, s)"
proof (induction ns arbitrary: s rule: rev_induct)
  case Nil
  show ?case by simp
next
  case (snoc n ns)
  have "IntStream_next (IntStream_put n (fold IntStream_put ns s)) = (n, fold IntStream_put ns s)"
    by (simp add: IntStream_next_def IntStream_put_def)
  with snoc show ?case by simp
qed

lemma be_val_snoc: "be_val (bs @ [b]) = be_val bs * 256 + unat b"
  by (simp add: be_val_def)

lemma be_val_be_bytes: "be_val (be_bytes n) = n"
proof (induction n rule: be_bytes.induct)
  case (1 n)
  show ?case
  proof (cases "n = 0")
    case True
    then show ?thesis by (simp add: be_bytes.simps be_val_def)
  next
    case False
    have "unat (of_nat (n mod 256) :: byte) = n mod 256"
      by (simp add: unat_of_nat)
    with False 1 show ?thesis
      by (subst be_bytes.simps) (simp add: be_val_snoc)
  qed
qed

lemma length_be_bytes: "n < 256 ^ k \<Longrightarrow> length (be_bytes n) \<le> k"
proof (induction k arbitrary: n)
  case 0
  then show ?case by (simp add: be_bytes.simps)
next
  case (Suc k)
  show ?case
  proof (cases "n = 0")
    case True
    then show ?thesis by (simp add: be_bytes.simps)
  next
    case False
    from Suc.prems have "n div 256 < 256 ^ k"
      by (simp add: less_mult_imp_div_less mult.commute)
    from Suc.IH [OF this] False show ?thesis
      by (subst be_bytes.simps) simp
  qed
qed

lemma be_bytes_nonempty: "0 < n \<Longrightarrow> 0 < length (be_bytes n)"
  by (subst be_bytes.simps) simp

lemma gob_read_uint_gob_uint: "gob_read_uint (gob_uint x @ rest) = Some (x, rest)"
proof (cases "x \<le> 0x7F")
  case True
  then have "unat x \<le> 127" by (simp add: word_le_nat_alt)
  then have "(ucast x :: byte) \<le> 0x7F"
    by (simp add: word_le_nat_alt unsigned_ucast_eq take_bit_nat_eq_self)
  moreover have "ucast (ucast x :: byte) = x"
    using \<open>unat x \<le> 127\<close> by (simp add: word_unat_eq_iff unsigned_ucast_eq unsigned_take_bit_eq take_bit_nat_eq_self)
  ultimately show ?thesis using True
    by (simp add: gob_uint_def gob_read_uint_def)
next
  case False
  define bs where "bs = be_bytes (unat x)"
  have pos: "0 < unat x" using False by (simp add: word_le_nat_alt not_le)
  have "unat x < 256 ^ 8" using unsigned_less [of x] by simp
  then have le8: "length bs \<le> 8" unfolding bs_def by (rule length_be_bytes)
  have ge1: "0 < length bs" unfolding bs_def using pos by (rule be_bytes_nonempty)
  define k where "k = 256 - length bs"
  have k: "248 \<le> k" "k < 256" "256 - k = length bs"
    using le8 ge1 by (simp_all add: k_def)
  have u: "unat (of_nat k :: byte) = k"
    using k by (simp add: unat_of_nat)
  then have big: "\<not> (of_nat k :: byte) \<le> 0x7F"
    using k by (simp add: word_le_nat_alt)
  have val: "(of_nat (be_val bs) :: u64) = x"
    by (simp add: bs_def be_val_be_bytes)
  have enc: "gob_uint x = of_nat k # bs"
    using False by (simp add: gob_uint_def Let_def bs_def k_def)
  show ?thesis
    unfolding enc using big u le8 k val
    by (simp add: gob_read_uint_def Let_def)
qed

lemma gob_read_uints_concat:
  "gob_read_uints (length xs) (concat (map gob_uint xs) @ rest) = Some (xs, rest)"
  by (induction xs) (simp_all add: gob_read_uint_gob_uint)

lemma length_gob_uint: "length (gob_uint x) \<le> 9"
proof -
  have "unat x < 256 ^ 8" using unsigned_less [of x] by simp
  then have "length (be_bytes (unat x)) \<le> 8" by (rule length_be_bytes)
  then show ?thesis by (simp add: gob_uint_def Let_def)
qed

lemma length_concat_gob_uint: "length (concat (map gob_uint xs)) \<le> 9 * length xs"
proof (induction xs)
  case Nil
  show ?case by simp
next
  case (Cons x xs)
  with length_gob_uint [of x] show ?case by simp
qed

lemma gob_decode_encode:
  assumes "length xs < 2 ^ 60"
  shows "gob_decode_uint64s (gob_encode_uint64s xs) = Some xs"
proof -
  define body where
    "body = gob_value_prefix @ gob_uint (of_nat (length xs)) @ concat (map gob_uint xs)"
  have "length body \<le> 3 + 9 + 9 * length xs"
    using length_gob_uint [of "of_nat (length xs)"] length_concat_gob_uint [of xs]
    by (simp add: body_def gob_value_prefix_def)
  with assms have lb: "length body < 2 ^ 64" by simp
  have ub: "unat (of_nat (length body) :: u64) = length body"
    using lb by (simp add: unat_of_nat)
  have ux: "unat (of_nat (length xs) :: u64) = length xs"
    using assms by (simp add: unat_of_nat)
  have enc: "gob_encode_uint64s xs = gob_slice_typedef @ gob_uint (of_nat (length body)) @ body"
    by (simp add: gob_encode_uint64s_def body_def Let_def)
  have t3: "take 3 body = gob_value_prefix" "drop 3 body = gob_uint (of_nat (length xs)) @ concat (map gob_uint xs)"
    by (simp_all add: body_def gob_value_prefix_def)
  have r: "gob_read_uints (length xs) (concat (map gob_uint xs)) = Some (xs, [])"
    using gob_read_uints_concat [of xs "[]"] by simp
  show ?thesis
    unfolding enc gob_decode_uint64s_def
    by (simp add: gob_read_uint_gob_uint ub t3 ux r)
qed

lemma marshal_loop_rev:
  "length st \<le> length arr \<Longrightarrow> marshal_loop st arr = ([], rev st @ drop (length st) arr)"
proof (induction st arbitrary: arr)
  case Nil
  show ?case by simp
next
  case (Cons x st)
  then have lt: "length st < length arr" by simp
  have "drop (length st) (arr[length st := x]) = x # drop (Suc (length st)) arr"
    using lt by (simp add: upd_conv_take_nth_drop)
  with Cons.IH [of "arr[length st := x]"] lt show ?case by simp
qed

text \<open>
  C6. \<open>next\<close> on an empty free-stack increments \<open>lastInt\<close> and returns the new value;
  on a non-empty one it returns the front (the most recently put value) and removes it;
  \<open>put\<close> pushes any number, unchecked, and a run of puts is handed back by as many calls
  of \<open>next\<close> in reverse (LIFO) order, leaving the stream as it was.
\<close>

theorem IntStream_next_put_lifo:
  "IntStream_next (s\<lparr>stack := []\<rparr>)
     = (lastInt s + 1, s\<lparr>stack := [], lastInt := lastInt s + 1\<rparr>)
   \<and> IntStream_next (s\<lparr>stack := x # xs\<rparr>) = (x, s\<lparr>stack := xs\<rparr>)
   \<and> IntStream_put n s = s\<lparr>stack := n # stack s\<rparr>
   \<and> IntStream_next (IntStream_put n s) = (n, s)
   \<and> nexts (length ns) (fold IntStream_put ns s) = (rev ns, s)"
  by (simp add: IntStream_next_def IntStream_put_def nexts_puts Let_def)

text \<open>
  C10. \<open>MarshalBinary\<close> empties the free-stack of the stream it serializes: whatever the
  stack held, it is empty afterwards, \<open>lastInt\<close> is unchanged, and the next call of
  \<open>next\<close> hands out the fresh number \<open>lastInt + 1\<close> instead of a freed one.
\<close>

theorem MarshalBinary_empties_stack:
  "stack (snd (IntStream_MarshalBinary s)) = []
   \<and> lastInt (snd (IntStream_MarshalBinary s)) = lastInt s
   \<and> fst (IntStream_next (snd (IntStream_MarshalBinary s))) = lastInt s + 1"
  by (simp add: IntStream_MarshalBinary_def marshal_loop_rev IntStream_next_def Let_def)

text \<open>
  C7. Serializing the free-stack with \<open>MarshalBinary\<close> and deserializing the bytes with
  \<open>UnmarshalBinary\<close> into the stream gives back the stack, same elements in the same
  order (and so the stream itself). The length bound is the one Go puts on a slice of
  8-byte elements.
\<close>

theorem MarshalBinary_UnmarshalBinary:
  assumes "length (stack s) < 2 ^ 60"
  shows "(case IntStream_MarshalBinary s of (data, s') \<Rightarrow> IntStream_UnmarshalBinary data s')
           = Inr s"
proof -
  have m: "IntStream_MarshalBinary s = (gob_encode_uint64s (rev (stack s)), s\<lparr>stack := []\<rparr>)"
    by (simp add: IntStream_MarshalBinary_def marshal_loop_rev)
  have d: "gob_decode_uint64s (gob_encode_uint64s (rev (stack s))) = Some (rev (stack s))"
    using assms by (simp add: gob_decode_encode)
  have f: "fold (\<lambda>entry st. entry # st) (rev (stack s)) [] = stack s"
    by (simp add: fold_Cons_rev)
  show ?thesis
    by (simp add: m IntStream_UnmarshalBinary_def d f)
qed

theorem MarshalBinary_UnmarshalBinary_witness:
  "length (stack \<lparr>stack = [29, 7], lastInt = 2\<rparr>) < 2 ^ 60
   \<and> (case IntStream_MarshalBinary \<lparr>stack = [29, 7], lastInt = 2\<rparr> of
         (data, s') \<Rightarrow> IntStream_UnmarshalBinary data s')
       = Inr \<lparr>stack = [29, 7], lastInt = 2\<rparr>"
  using MarshalBinary_UnmarshalBinary [of "\<lparr>stack = [29, 7], lastInt = 2\<rparr>"] by simp

section \<open>Properties of inode reads and writes\<close>

text \<open>
  A world to run examples in: nothing cached, an empty table and bucket, a cache of
  capacity 1 and the data stream as a fresh superblock sets it.
\<close>

definition fresh_World :: World where
  "fresh_World =
     \<lparr>cache = initializeCache 1, dynamo = (\<lambda>k. None), s3 = (\<lambda>k. None),
      dataStream = \<lparr>stack = [], lastInt = 1\<rparr>, deleted = []\<rparr>"

lemmas eval_inode_defs =
  Inode_writeToData_def Inode_readFromData_def updateSize_def createInode_def
  INODE_BUFFER_SIZE_def INODE_SIZE_def INODE_WITHOUT_BUFFER_SIZE_def
  slice_def copy_at_def slice_from_def Let_def

lemma writeDataBlocks_loop_Size:
  "writeDataBlocks_loop j offset data i w = Some ((offset', data', i'), w') \<Longrightarrow> Size i' = Size i"
proof (induction j offset data i w rule: writeDataBlocks_loop.induct)
  case (1 j offset data i w)
  show ?case
    using "1.prems" "1.IH"
    by (subst (asm) writeDataBlocks_loop.simps)
       (auto split: if_splits simp: bind_eq_Some_conv)
qed

text \<open>The four steps of \<open>writeDataBlocks\<close>, one after the other.\<close>

lemma writeDataBlocks_SomeE:
  assumes "writeDataBlocks data offset i w = Some (i', w')"
  obtains o1 d1 i1 w1 o2 d2 i2 w2 o3 d3 i3 w3 where
    "writeDataBlocks_loop 0 offset data i w = Some ((o1, d1, i1), w1)"
    "(if 0 < length d1 \<and> o1 < FIRST_DOUBLY_INDIRECT_BYTE then
        do {
          ((n, d), w') \<leftarrow> writeIndirect d1 o1 (Data i1 ! IND_BLOCK) w1;
          Some ((0, d, i1\<lparr>Data := (Data i1)[IND_BLOCK := n]\<rparr>), w')
        }
      else Some ((o1 - BLOCK_SIZE * BLOCK_SIZE, d1, i1), w1)) = Some ((o2, d2, i2), w2)"
    "(if 0 < length d2 \<and> o2 < FIRST_TRIPLY_INDIRECT_BYTE then
        do {
          ((n, d), w') \<leftarrow> writeDoubIndirect d2 o2 (Data i2 ! DOUB_IND_BLOCK) w2;
          Some ((0, d, i2\<lparr>Data := (Data i2)[DOUB_IND_BLOCK := n]\<rparr>), w')
        }
      else Some ((o2 - BLOCK_SIZE * BLOCK_SIZE * BLOCK_SIZE, d2, i2), w2)) = Some ((o3, d3, i3), w3)"
    "(if 0 < length d3 then
        do {
          ((n, d), w') \<leftarrow> writeTripIndirect d3 o3 (Data i3 ! TRIP_IND_BLOCK) w3;
          Some (i3\<lparr>Data := (Data i3)[TRIP_IND_BLOCK := n]\<rparr>, w')
        }
      else Some (i3, w3)) = Some (i', w')"
  using assms unfolding writeDataBlocks_def by (fastforce simp: bind_eq_Some_conv)

lemma writeDataBlocks_Size:
  assumes "writeDataBlocks data offset i w = Some (i', w')"
  shows "Size i' = Size i"
proof -
  from assms obtain o1 d1 i1 w1 o2 d2 i2 w2 o3 d3 i3 w3 where
    a: "writeDataBlocks_loop 0 offset data i w = Some ((o1, d1, i1), w1)"
    and b: "(if 0 < length d1 \<and> o1 < FIRST_DOUBLY_INDIRECT_BYTE then
        do {
          ((n, d), w') \<leftarrow> writeIndirect d1 o1 (Data i1 ! IND_BLOCK) w1;
          Some ((0, d, i1\<lparr>Data := (Data i1)[IND_BLOCK := n]\<rparr>), w')
        }
      else Some ((o1 - BLOCK_SIZE * BLOCK_SIZE, d1, i1), w1)) = Some ((o2, d2, i2), w2)"
    and c: "(if 0 < length d2 \<and> o2 < FIRST_TRIPLY_INDIRECT_BYTE then
        do {
          ((n, d), w') \<leftarrow> writeDoubIndirect d2 o2 (Data i2 ! DOUB_IND_BLOCK) w2;
          Some ((0, d, i2\<lparr>Data := (Data i2)[DOUB_IND_BLOCK := n]\<rparr>), w')
        }
      else Some ((o2 - BLOCK_SIZE * BLOCK_SIZE * BLOCK_SIZE, d2, i2), w2)) = Some ((o3, d3, i3), w3)"
    and d: "(if 0 < length d3 then
        do {
          ((n, d), w') \<leftarrow> writeTripIndirect d3 o3 (Data i3 ! TRIP_IND_BLOCK) w3;
          Some (i3\<lparr>Data := (Data i3)[TRIP_IND_BLOCK := n]\<rparr>, w')
        }
      else Some (i3, w3)) = Some (i', w')"
    by (rule writeDataBlocks_SomeE)
  have "Size i1 = Size i" using a by (rule writeDataBlocks_loop_Size)
  moreover have "Size i2 = Size i1" using b by (auto split: if_splits simp: bind_eq_Some_conv)
  moreover have "Size i3 = Size i2" using c by (auto split: if_splits simp: bind_eq_Some_conv)
  moreover have "Size i' = Size i3" using d by (auto split: if_splits simp: bind_eq_Some_conv)
  ultimately show ?thesis by simp
qed

text \<open>
  C3, as the code has it. A call of \<open>writeToData\<close> that returns leaves \<open>Size\<close> equal to
  \<open>offset + len(data)\<close> (in 64-bit arithmetic), whatever \<open>Size\<close> was before: the size is
  assigned, no maximum with the old size is taken.
\<close>

theorem writeToData_Size:
  assumes "Inode_writeToData data offset now i w = Some (i', w')"
  shows "Size i' = of_nat (length data) + offset"
  using assms unfolding Inode_writeToData_def updateSize_def Let_def
  by (auto split: if_splits simp: bind_eq_Some_conv dest!: writeDataBlocks_Size)

theorem writeToData_Size_witness:
  "Inode_writeToData [1, 1, 1] 0 0 (createInode 0 0) fresh_World
     = Some (\<lparr>Size = 3, LinkCount = 0, UnixTime = 0, IsDir = 0,
              DataBuf = 1 # 1 # 1 # replicate 370 0, Data = replicate 15 0\<rparr>, fresh_World)
   \<and> Size \<lparr>Size = 3, LinkCount = 0, UnixTime = 0, IsDir = 0,
            DataBuf = 1 # 1 # 1 # replicate 370 0, Data = replicate 15 0\<rparr>
       = of_nat (length [1 :: byte, 1, 1]) + 0"
proof -
  have e: "Inode_writeToData [1, 1, 1] 0 0 (createInode 0 0) fresh_World
     = Some (\<lparr>Size = 3, LinkCount = 0, UnixTime = 0, IsDir = 0,
              DataBuf = 1 # 1 # 1 # replicate 370 0, Data = replicate 15 0\<rparr>, fresh_World)"
    by (simp add: eval_inode_defs)
  from writeToData_Size [OF e] e show ?thesis by simp
qed

text \<open>
  C3 as the claim states it fails: on a new inode, a write of three bytes at offset 0
  makes \<open>Size\<close> 3, and a write of one byte at offset 0, inside that content, then makes
  it 1, not \<open>max 3 (0 + 1)\<close>.
\<close>

theorem writeToData_Size_not_max:
  "(do {
      (i1, w1) \<leftarrow> Inode_writeToData [1, 1, 1] 0 0 (createInode 0 0) fresh_World;
      (i2, w2) \<leftarrow> Inode_writeToData [2] 0 0 i1 w1;
      Some (Size i1, Size i2)
    }) = Some (3, 1)
   \<and> (1 :: u64) \<noteq> max 3 (0 + of_nat (length [2 :: byte]))"
  by (simp add: eval_inode_defs)

text \<open>
  C4, as the code has it. \<open>readFromData\<close> returns the offset-past-end error exactly
  when the offset is at or past \<open>Size\<close> (\<open>offset \<ge> Size\<close>), whatever the size asked
  for; so on an inode that was never written, where \<open>Size\<close> is 0, both
  \<open>readFromData(0, 0)\<close> and \<open>readFromData(0, 1)\<close> fail with it.
\<close>

theorem readFromData_OffsetPastEnd:
  "(map_option fst (Inode_readFromData offset sz i w) = Some (Inl OffsetPastEnd))
     = (Size i \<le> offset)
   \<and> Inode_readFromData 0 0 (createInode isDir now) w = Some (Inl OffsetPastEnd, w)
   \<and> Inode_readFromData 0 1 (createInode isDir now) w = Some (Inl OffsetPastEnd, w)"
proof -
  have "(map_option fst (Inode_readFromData offset sz i w) = Some (Inl OffsetPastEnd))
     = (Size i \<le> offset)"
    unfolding Inode_readFromData_def Let_def
    by (auto split: if_splits simp: bind_eq_Some_conv)
  then show ?thesis
    by (simp add: Inode_readFromData_def createInode_def)
qed

text \<open>
  C4 as the claim states it fails: \<open>readFromData(0, 0)\<close> on a new inode does not
  succeed, and an offset equal to \<open>Size\<close>, which does not exceed it, is refused too.
\<close>

theorem readFromData_zero_fails:
  "Inode_readFromData 0 0 (createInode 0 0) fresh_World = Some (Inl OffsetPastEnd, fresh_World)
   \<and> Inode_readFromData 3 0 ((createInode 0 0)\<lparr>Size := 3\<rparr>) fresh_World
       = Some (Inl OffsetPastEnd, fresh_World)"
  by (simp add: Inode_readFromData_def createInode_def)

section \<open>Properties of the cache\<close>

text \<open>The tracked-key sequence of the cache, least recently used first.\<close>

definition tracked :: "World \<Rightarrow> key list" where
  "tracked w = map snd (recentlyUsedQueue (cache w))"

text \<open>
  The invariant of the cache: no element and no key twice in the queue, \<open>keyHash\<close>
  maps exactly the keys of the queue, each to its element, element addresses were
  allocated before, every tracked key has an item in the table, and the queue is no
  longer than the capacity.
\<close>

definition cache_inv :: "World \<Rightarrow> bool" where
  "cache_inv w =
     (let c = cache w; q = recentlyUsedQueue c in
      distinct (map fst q) \<and> distinct (map snd q)
      \<and> (\<forall>k e. (keyHash c k = Some e) = ((e, k) \<in> set q))
      \<and> (\<forall>e \<in> fst ` set q. e < nextElement c)
      \<and> (\<forall>k \<in> snd ` set q. dynamo w k \<noteq> None)
      \<and> int (length q) \<le> cacheCapacity c)"

text \<open>Sequences of the three operations of the cache; a panic ends a run with \<open>None\<close>.\<close>

datatype cache_op = AddBlock DataBlock key | GetBlock key | DeleteBlock key

fun apply_cache_op :: "cache_op \<Rightarrow> World \<Rightarrow> World option" where
  "apply_cache_op (AddBlock d k) w = map_option snd (Cache_addBlock d k w)"
| "apply_cache_op (GetBlock k) w = Some (snd (Cache_getBlock k w))"
| "apply_cache_op (DeleteBlock k) w = Some (snd (Cache_deleteBlock k w))"

fun run_cache_ops :: "cache_op list \<Rightarrow> World \<Rightarrow> World option" where
  "run_cache_ops [] w = Some w"
| "run_cache_ops (x # xs) w = (case apply_cache_op x w of None \<Rightarrow> None | Some w' \<Rightarrow> run_cache_ops xs w')"

lemma list_Remove_fresh:
  "e \<notin> fst ` set q \<Longrightarrow> list_Remove e q = q"
  by (induction q) (auto simp: list_Remove_def)

lemma list_Remove_hd:
  "distinct (map fst (x # q)) \<Longrightarrow> list_Remove (fst x) (x # q) = q"
  using list_Remove_fresh [of "fst x" q] by (simp add: list_Remove_def)

lemma set_list_Remove: "set (list_Remove e q) = {x \<in> set q. fst x \<noteq> e}"
  by (simp add: list_Remove_def)

lemma distinct_list_Remove:
  "distinct (map f q) \<Longrightarrow> distinct (map f (list_Remove e q))"
  by (simp add: list_Remove_def distinct_map_filter)

lemma length_list_Remove_mem:
  "(e, k) \<in> set q \<Longrightarrow> length (list_Remove e q) < length q"
  unfolding list_Remove_def
  by (induction q) (auto simp: less_Suc_eq_le)


lemma set_list_MoveToBack [simp]: "set (list_MoveToBack e q) = set q"
  by (auto simp: list_MoveToBack_def)

lemma length_list_MoveToBack [simp]: "length (list_MoveToBack e q) = length q"
  unfolding list_MoveToBack_def
  using sum_length_filter_compl [of "\<lambda>x. fst x \<noteq> e" q] by simp

lemma distinct_list_MoveToBack:
  "distinct (map f q) \<Longrightarrow> distinct (map f (list_MoveToBack e q))"
  unfolding list_MoveToBack_def by (induction q) auto


lemma cache_inv_getBlock:
  assumes "cache_inv w"
  shows "cache_inv (snd (Cache_getBlock k w))"
    and "cacheCapacity (cache (snd (Cache_getBlock k w))) = cacheCapacity (cache w)"
  using assms
  by (auto simp: Cache_getBlock_def cache_inv_def Let_def distinct_list_MoveToBack
           split: option.splits)

lemma cache_inv_deleteBlock:
  assumes "cache_inv w"
  shows "cache_inv (snd (Cache_deleteBlock k w))"
    and "cacheCapacity (cache (snd (Cache_deleteBlock k w))) = cacheCapacity (cache w)"
proof -
  show "cacheCapacity (cache (snd (Cache_deleteBlock k w))) = cacheCapacity (cache w)"
    by (simp add: Cache_deleteBlock_def Let_def split: option.splits)
  show "cache_inv (snd (Cache_deleteBlock k w))"
  proof (cases "keyHash (cache w) k")
    case None
    then show ?thesis using assms by (simp add: Cache_deleteBlock_def Let_def)
  next
    case (Some e)
    let ?q = "recentlyUsedQueue (cache w)"
    from assms Some have mem: "(e, k) \<in> set ?q" by (simp add: cache_inv_def Let_def)
    have d1: "distinct (map fst ?q)" and d2: "distinct (map snd ?q)"
      using assms by (simp_all add: cache_inv_def Let_def)
    have i1: "inj_on fst (set ?q)" and i2: "inj_on snd (set ?q)"
      using d1 d2 by (simp_all add: distinct_map)
    have only_k: "(e' \<noteq> e) = (k' \<noteq> k)" if "(e', k') \<in> set ?q" for e' k'
      using inj_onD [OF i1 _ that mem] inj_onD [OF i2 _ that mem] by auto
    have eq: "snd (Cache_deleteBlock k w) =
        w\<lparr>cache := (cache w)\<lparr>recentlyUsedQueue := list_Remove e ?q,
                                 keyHash := (keyHash (cache w))(k := None)\<rparr>,
          dynamo := (dynamo w)(k := None)\<rparr>"
      using Some by (simp add: Cache_deleteBlock_def Let_def)
    show ?thesis
      unfolding eq
      using assms length_list_Remove_mem [OF mem] only_k
      by (auto simp: cache_inv_def Let_def distinct_list_Remove set_list_Remove)
  qed
qed


lemma Cache_addBlock_hit:
  assumes "keyHash (cache w) k = Some elt"
  shows "Cache_addBlock d k w =
     Some (None, w\<lparr>dynamo := (dynamo w)(k \<mapsto> d),
                    cache := (cache w)\<lparr>recentlyUsedQueue :=
                                list_MoveToBack elt (recentlyUsedQueue (cache w))\<rparr>\<rparr>)"
  using assms by (simp add: Cache_addBlock_def Let_def)

lemma Cache_addBlock_room:
  assumes "keyHash (cache w) k = None"
    and "int (length (recentlyUsedQueue (cache w))) \<noteq> cacheCapacity (cache w)"
  shows "Cache_addBlock d k w =
     Some (None, w\<lparr>dynamo := (dynamo w)(k \<mapsto> d),
                    cache := (cache w)\<lparr>
                      recentlyUsedQueue := recentlyUsedQueue (cache w) @ [(nextElement (cache w), k)],
                      nextElement := Suc (nextElement (cache w)),
                      keyHash := (keyHash (cache w))(k \<mapsto> nextElement (cache w))\<rparr>\<rparr>)"
  using assms by (simp add: Cache_addBlock_def Let_def list_PushBack_def)

lemma Cache_addBlock_full:
  assumes "keyHash (cache w) k = None"
    and "int (length (recentlyUsedQueue (cache w))) = cacheCapacity (cache w)"
    and "recentlyUsedQueue (cache w) = (ee, ek) # q'"
    and "distinct (map fst (recentlyUsedQueue (cache w)))"
    and "dynamo w ek = Some v" and "ek \<noteq> k"
  shows "Cache_addBlock d k w =
     Some (None, w\<lparr>dynamo := ((dynamo w)(k \<mapsto> d))(ek := None),
                    s3 := (s3 w)(ek \<mapsto> v),
                    cache := (cache w)\<lparr>
                      recentlyUsedQueue := q' @ [(nextElement (cache w), k)],
                      nextElement := Suc (nextElement (cache w)),
                      keyHash := ((keyHash (cache w))(ek := None))(k \<mapsto> nextElement (cache w))\<rparr>\<rparr>)"
proof -
  have "list_Remove ee ((ee, ek) # q') = q'"
    using list_Remove_hd [of "(ee, ek)" q'] assms(3,4) by simp
  then show ?thesis
    using assms by (simp add: Cache_addBlock_def Let_def list_PushBack_def Cache_evictBlock_def)
qed

lemma cache_inv_addBlock:
  assumes "cache_inv w" and "0 < cacheCapacity (cache w)"
  shows "\<exists>w'. Cache_addBlock d k w = Some (None, w') \<and> cache_inv w'
           \<and> cacheCapacity (cache w') = cacheCapacity (cache w)"
proof (cases "keyHash (cache w) k")
  case (Some elt)
  show ?thesis
    unfolding Cache_addBlock_hit [OF Some]
    using assms(1) by (auto simp: cache_inv_def Let_def distinct_list_MoveToBack)
next
  case None
  let ?q = "recentlyUsedQueue (cache w)"
  have kh: "(keyHash (cache w) k' = Some e) = ((e, k') \<in> set ?q)" for k' e
    using assms(1) by (simp add: cache_inv_def Let_def)
  have fresh_k: "(e, k) \<notin> set ?q" for e
    using kh [of k e] None by simp
  have fresh_e: "(nextElement (cache w), k') \<notin> set ?q" for k'
    using assms(1) by (auto simp: cache_inv_def Let_def)
  have fresh_k_img: "k \<notin> snd ` set ?q" and fresh_e_img: "nextElement (cache w) \<notin> fst ` set ?q"
    using fresh_k fresh_e by auto
  show ?thesis
  proof (cases "int (length ?q) = cacheCapacity (cache w)")
    case False
    then have lt: "int (length ?q) < cacheCapacity (cache w)"
      using assms(1) by (simp add: cache_inv_def Let_def)
    show ?thesis
      unfolding Cache_addBlock_room [OF None False]
      using assms(1) lt fresh_k fresh_e fresh_k_img fresh_e_img
      by (auto simp: cache_inv_def Let_def less_Suc_eq)
  next
    case True
    with assms(2) obtain ee ek q' where q: "?q = (ee, ek) # q'"
      by (cases ?q) auto
    have d1: "distinct (map fst ?q)" using assms(1) by (simp add: cache_inv_def Let_def)
    from assms(1) q obtain v where v: "dynamo w ek = Some v"
      by (auto simp: cache_inv_def Let_def)
    have ne: "ek \<noteq> k" using fresh_k [of ee] q by auto
    have d2: "distinct (map snd ?q)" using assms(1) by (simp add: cache_inv_def Let_def)
    have ek_fresh: "(e, ek) \<notin> set q'" for e
      using d2 q by force
    have ee_fresh: "(ee, k') \<notin> set q'" for k'
      using d1 q by force
    show ?thesis
      unfolding Cache_addBlock_full [OF None True q d1 v ne]
      using assms(1) True fresh_k fresh_e fresh_k_img fresh_e_img q ek_fresh ee_fresh
      by (auto simp: cache_inv_def Let_def less_Suc_eq)
  qed
qed


lemma cache_inv_initial:
  assumes "cache w0 = initializeCache C" and "0 \<le> C"
  shows "cache_inv w0"
  using assms by (simp add: cache_inv_def initializeCache_def)

lemma run_cache_ops_inv:
  assumes "cache_inv w" and "0 < cacheCapacity (cache w)"
  shows "\<exists>w'. run_cache_ops ops w = Some w' \<and> cache_inv w'
            \<and> cacheCapacity (cache w') = cacheCapacity (cache w)"
  using assms
proof (induction ops arbitrary: w)
  case Nil
  then show ?case by simp
next
  case (Cons x ops)
  have "\<exists>w1. apply_cache_op x w = Some w1 \<and> cache_inv w1
            \<and> cacheCapacity (cache w1) = cacheCapacity (cache w)"
  proof (cases x)
    case (AddBlock d k)
    with cache_inv_addBlock [OF Cons.prems, of d k] show ?thesis by auto
  next
    case (GetBlock k)
    with cache_inv_getBlock [OF Cons.prems(1), of k] show ?thesis by simp
  next
    case (DeleteBlock k)
    with cache_inv_deleteBlock [OF Cons.prems(1), of k] show ?thesis by simp
  qed
  then obtain w1 where w1: "apply_cache_op x w = Some w1" "cache_inv w1"
    "cacheCapacity (cache w1) = cacheCapacity (cache w)" by blast
  with Cons.IH [of w1] Cons.prems(2) show ?case by simp
qed

lemma addBlock_evicts_front:
  assumes inv: "cache_inv w" and cap: "0 < cacheCapacity (cache w)"
    and un: "k \<notin> set (tracked w)"
    and full: "int (length (tracked w)) = cacheCapacity (cache w)"
  shows "\<exists>w'. Cache_addBlock d k w = Some (None, w')
           \<and> tracked w' = tl (tracked w) @ [k]
           \<and> dynamo w' (hd (tracked w)) = None
           \<and> s3 w' (hd (tracked w)) = dynamo w (hd (tracked w))"
proof -
  let ?q = "recentlyUsedQueue (cache w)"
  have kh: "(keyHash (cache w) k' = Some e) = ((e, k') \<in> set ?q)" for k' e
    using inv by (simp add: cache_inv_def Let_def)
  have None: "keyHash (cache w) k = None"
  proof (cases "keyHash (cache w) k")
    case (Some e)
    then have "(e, k) \<in> set ?q" by (simp add: kh)
    then have "k \<in> set (tracked w)" by (force simp: tracked_def)
    with un show ?thesis by simp
  qed simp
  have True: "int (length ?q) = cacheCapacity (cache w)"
    using full by (simp add: tracked_def)
  with cap obtain ee ek q' where q: "?q = (ee, ek) # q'"
    by (cases ?q) auto
  have d1: "distinct (map fst ?q)" using inv by (simp add: cache_inv_def Let_def)
  from inv q obtain v where v: "dynamo w ek = Some v"
    by (auto simp: cache_inv_def Let_def)
  have ne: "ek \<noteq> k" using un q by (auto simp: tracked_def)
  show ?thesis
    unfolding Cache_addBlock_full [OF None True q d1 v ne]
    using q v ne by (simp add: tracked_def)
qed

text \<open>
  C9. From a cache initialized with a capacity \<open>C > 0\<close>, every sequence of
  \<open>addBlock\<close>, \<open>getBlock\<close> and \<open>deleteBlock\<close> runs to its end, and the
  tracked-key sequence it reaches holds at most \<open>C\<close> keys, none of them twice (every
  prefix of a sequence is a sequence, so this holds at every step). When the sequence
  is full, an \<open>addBlock\<close> of an untracked key drops the front (least recently used)
  key and tracks the new key at the back; the evicted block leaves the table for the
  bucket.
\<close>

theorem cache_bounded_distinct_lru:
  assumes "0 < C" and "cache w0 = initializeCache C"
  shows "\<exists>w. run_cache_ops ops w0 = Some w
           \<and> int (length (tracked w)) \<le> C \<and> distinct (tracked w)
           \<and> (\<forall>d k. k \<notin> set (tracked w) \<and> int (length (tracked w)) = C \<longrightarrow>
                 (\<exists>w'. Cache_addBlock d k w = Some (None, w')
                    \<and> tracked w' = tl (tracked w) @ [k]
                    \<and> dynamo w' (hd (tracked w)) = None
                    \<and> s3 w' (hd (tracked w)) = dynamo w (hd (tracked w))))"
proof -
  have i0: "cache_inv w0" using assms by (simp add: cache_inv_initial)
  have c0: "0 < cacheCapacity (cache w0)" using assms by (simp add: initializeCache_def)
  from run_cache_ops_inv [OF i0 c0, of ops] obtain w where
    w: "run_cache_ops ops w0 = Some w" "cache_inv w" "cacheCapacity (cache w) = C"
    using assms by (auto simp: initializeCache_def)
  have "int (length (tracked w)) \<le> C" "distinct (tracked w)"
    using w(2,3) by (simp_all add: cache_inv_def Let_def tracked_def)
  moreover have "\<exists>w'. Cache_addBlock d k w = Some (None, w')
                    \<and> tracked w' = tl (tracked w) @ [k]
                    \<and> dynamo w' (hd (tracked w)) = None
                    \<and> s3 w' (hd (tracked w)) = dynamo w (hd (tracked w))"
    if "k \<notin> set (tracked w)" "int (length (tracked w)) = C" for d k
    using addBlock_evicts_front [OF w(2) _ that(1)] that(2) w(3) assms(1) by simp
  ultimately show ?thesis using w(1) by blast
qed

definition World2 :: World where
  "World2 =
     \<lparr>cache = initializeCache 2, dynamo = (\<lambda>k. None), s3 = (\<lambda>k. None),
      dataStream = \<lparr>stack = [], lastInt = 1\<rparr>, deleted = []\<rparr>"

definition ops2 :: "cache_op list" where
  "ops2 = [AddBlock [1] (DataKey 1), AddBlock [2] (DataKey 2), GetBlock (DataKey 1),
           AddBlock [3] (DataKey 3), DeleteBlock (DataKey 7), AddBlock [4] (DataKey 3)]"

lemmas eval_cache_defs =
  initializeCache_def Cache_addBlock_def Cache_getBlock_def Cache_deleteBlock_def
  Cache_evictBlock_def list_PushBack_def list_Remove_def list_MoveToBack_def Let_def

theorem cache_bounded_distinct_lru_witness:
  "(0 :: int) < 2 \<and> cache World2 = initializeCache 2
   \<and> map_option tracked (run_cache_ops ops2 World2) = Some [DataKey 1, DataKey 3]
   \<and> (\<exists>w. run_cache_ops ops2 World2 = Some w
           \<and> int (length (tracked w)) \<le> 2 \<and> distinct (tracked w)
           \<and> (\<forall>d k. k \<notin> set (tracked w) \<and> int (length (tracked w)) = 2 \<longrightarrow>
                 (\<exists>w'. Cache_addBlock d k w = Some (None, w')
                    \<and> tracked w' = tl (tracked w) @ [k]
                    \<and> dynamo w' (hd (tracked w)) = None
                    \<and> s3 w' (hd (tracked w)) = dynamo w (hd (tracked w)))))"
proof -
  have h1: "(0 :: int) < 2" by simp
  have h2: "cache World2 = initializeCache 2" by (simp add: World2_def)
  have e: "map_option tracked (run_cache_ops ops2 World2) = Some [DataKey 1, DataKey 3]"
    by (simp add: World2_def ops2_def tracked_def eval_cache_defs)
  from cache_bounded_distinct_lru [OF h1 h2, of ops2] h1 h2 e show ?thesis by blast
qed

section \<open>The superblock round trip\<close>

lemmas eval_store_defs =
  getData_def putData_def getDataByKey_def putDataByKey_def genDataKey_def deleteBlock_def
  new_DataBlock_def BLOCK_SIZE_def NUM_DATA_BLOCKS_def IntStream_next_def

text \<open>
  The stream of \<open>streamTest\<close>: \<open>lastInt\<close> is 2 and 29 was put back. Its free-stack
  serializes to 19 bytes, which \<open>makeSuperblocks\<close> packs into one block after the
  32-byte header.
\<close>

definition super29 :: DataBlock where
  "super29 =
     [2, 0, 0, 0, 0, 0, 0, 0, 5, 0, 0, 0, 0, 0, 0, 0, 1, 0, 0, 0, 0, 0, 0, 0,
      19, 0, 0, 0, 0, 0, 0, 0,
      12, 255, 129, 2, 1, 2, 255, 130, 0, 1, 6, 0, 0, 5, 255, 130, 0, 1, 29]
     @ replicate 32717 0"

lemma MarshalBinary_29:
  "IntStream_MarshalBinary \<lparr>stack = [29], lastInt = 2\<rparr>
     = ([12, 255, 129, 2, 1, 2, 255, 130, 0, 1, 6, 0, 0, 5, 255, 130, 0, 1, 29],
        \<lparr>stack = [], lastInt = 2\<rparr>)"
  by (simp add: IntStream_MarshalBinary_def gob_encode_uint64s_def gob_uint_def
      gob_slice_typedef_def gob_value_prefix_def)

lemma makeSuperblocks_29:
  "makeSuperblocks (compressStream \<lparr>stack = [29], lastInt = 2\<rparr>)
       (compressStream \<lparr>stack = [], lastInt = 5\<rparr>) ROOT_INODE
       [12, 255, 129, 2, 1, 2, 255, 130, 0, 1, 6, 0, 0, 5, 255, 130, 0, 1, 29]
     = Some [super29]"
  by (simp add: super29_def makeSuperblocks_def compressStream_def PutUint64_def ROOT_INODE_def
      new_DataBlock_def BLOCK_SIZE_def slice_def copy_at_def slice_from_def Let_def)

lemma makeFs_29:
  "makeFs super29 fresh_World
     = Some (Inr \<lparr>fs_inodeStream = \<lparr>stack = [], lastInt = 2\<rparr>, rootInode = 1\<rparr>,
             fresh_World\<lparr>dataStream := \<lparr>stack = [], lastInt = 5\<rparr>\<rparr>)"
  by (simp add: super29_def fresh_World_def slice_def copy_at_def slice_from_def BLOCK_SIZE_def
      makeFs_def decompressStream_def Uint64_def makeFs_loop.simps)

text \<open>
  C2 fails on the code. With the inode stream at \<open>lastInt = 2\<close> and free-stack
  \<open>[29]\<close>, the data stream at \<open>lastInt = 5\<close> and root inode 1, \<open>makeSuperblocks\<close>
  builds one superblock, and \<open>makeFs\<close> on that block restores both \<open>lastInt\<close> values
  and the root, but returns the inode stream with an empty free-stack: the free-stack
  is never deserialized, because the size left to read has dropped to 0 by the time
  \<open>makeFs\<close> tests it.
\<close>

theorem makeFs_makeSuperblocks_drops_stack:
  "(let s = \<lparr>stack = [29], lastInt = 2\<rparr>;
        ds = \<lparr>stack = [], lastInt = 5\<rparr>;
        (bytes, s') = IntStream_MarshalBinary s
    in do {
         blocks \<leftarrow> makeSuperblocks (compressStream s) (compressStream ds) ROOT_INODE bytes;
         (r, w) \<leftarrow> makeFs (hd blocks) fresh_World;
         Some (length blocks, r, dataStream w)
       })
   = Some (1, Inr \<lparr>fs_inodeStream = \<lparr>stack = [], lastInt = 2\<rparr>, rootInode = 1\<rparr>,
           \<lparr>stack = [], lastInt = 5\<rparr>)"
  by (simp add: MarshalBinary_29 makeSuperblocks_29 makeFs_29)

section \<open>Deleting the data of an inode\<close>

lemmas eval_write_defs =
  writeDataBlocks_def writeBlock_def writeDataBlocks_loop.simps FIRST_DOUBLY_INDIRECT_BYTE_def

text \<open>
  C5 fails on the code where \<open>Size - INODE_BUFFER_SIZE\<close> is a positive multiple of
  \<open>BLOCK_SIZE\<close>. One byte written at offset 33140 of a new inode makes \<open>Size\<close>
  33141 = 373 + 32768 and allocates one data block, number 2. The count
  \<open>deleteAllData\<close> starts from is 2, not \<open>\<lceil>32768 / 32768\<rceil> = 1\<close>, and it calls
  \<open>deleteBlock\<close> for two direct extents: block 2 and the unallocated extent 0.
\<close>

theorem deleteAllData_one_block_too_many:
  "(do {
      (i, w) \<leftarrow> Inode_writeToData [7] 33140 0 (createInode 0 0) fresh_World;
      (e, w') \<leftarrow> Inode_deleteAllData i w;
      Some (Size i, numBlocksToDelete_of i, e, deleted w')
    }) = Some (33141, 2, None, [2, 0])
   \<and> (unat (33141 - INODE_BUFFER_SIZE) + unat BLOCK_SIZE - 1) div unat BLOCK_SIZE = 1"
  by (simp add: fresh_World_def eval_inode_defs eval_cache_defs eval_store_defs eval_write_defs
        Inode_deleteAllData_def numBlocksToDelete_of_def deleteAllData_loop.simps)

section \<open>Writing and reading back\<close>







section \<open>Removing directory entries\<close>

lemma Dir_removeFile_inodeStream:
  "Dir_removeFile name now d w = Some ((n, e), d', w') \<Longrightarrow> inodeStream d' = inodeStream d"
  unfolding Dir_removeFile_def Let_def
  by (auto simp: bind_eq_Some_conv split: if_splits)

lemma Dir_Remove_found:
  assumes tab: "getTable (inode d) w = Some ((table, terr), w1)"
    and num: "Table_get table name \<noteq> 0"
    and ino: "getInode (Table_get table name) w1 = Some ((ino, None), w2)"
  shows "Dir_Remove name reqDir now d w =
           do {
                   (chk, w3) \<leftarrow>
                     (if reqDir \<and> IsDir ino = 1 then
                        do {
                          ((removeTable, terr), w') \<leftarrow> getTable ino w2;
                          (case terr of
                             Some e \<Rightarrow> Some (Some e, w')
                           | None \<Rightarrow>
                               if length removeTable \<noteq> 2 then Some (Some NotEmpty, w')
                               else Some (None, w'))
                        }
                      else Some (None, w2));
                   (case chk of
                      Some e \<Rightarrow> Some (Some e, d, w3)
                    | None \<Rightarrow>
                        (let ino1 = ino\<lparr>LinkCount := LinkCount ino - 1\<rparr> in
                         do {
                           (derr, d4, w4) \<leftarrow>
                             (if LinkCount ino1 = 0 then
                                do {
                                  (e, w') \<leftarrow> Inode_deleteAllData ino1 w3;
                                  (case e of
                                     Some x \<Rightarrow> Some (Some x, d, w')
                                   | None \<Rightarrow>
                                       Some (None,
                                             d\<lparr>inodeStream := IntStream_put (Table_get table name) (inodeStream d)\<rparr>,
                                             w'))
                                }
                              else Some (None, d, w3));
                           (case derr of
                              Some x \<Rightarrow> Some (Some x, d4, w4)
                            | None \<Rightarrow>
                                do {
                                  (_, w5) \<leftarrow> putInode ino1 (Table_get table name) w4;
                                  ((_, rerr), d6, w6) \<leftarrow> Dir_removeFile name now d4 w5;
                                  Some (rerr, d6, w6)
                                })
                         }))
                 }"
  using assms unfolding Dir_Remove_def Let_def by simp

text \<open>
  C8, as the code has it. Take an entry \<open>name\<close> of a directory whose table gives it a
  number other than 0 and whose inode loads. If the inode's \<open>LinkCount\<close> is 1 and
  \<open>Remove\<close> returns no error, the number is at the front of the free-stack of the inode
  stream and the next \<open>next()\<close> returns it. If the inode is a directory whose table
  has a size other than 2 and the request has its \<open>Dir\<close> flag set, \<open>Remove\<close> returns
  the not-empty error and leaves the directory node as it was (the world is the one the
  three reads leave). The emptiness test is made only under the \<open>Dir\<close> flag.
\<close>

theorem Dir_Remove_frees_number:
  assumes tab: "getTable (inode d) w = Some ((table, terr), w1)"
    and num: "Table_get table name \<noteq> 0"
    and ino: "getInode (Table_get table name) w1 = Some ((ino, None), w2)"
  shows "(LinkCount ino = 1 \<and> Dir_Remove name reqDir now d w = Some (None, d', w') \<longrightarrow>
            stack (inodeStream d') = Table_get table name # stack (inodeStream d)
            \<and> IntStream_next (inodeStream d') = (Table_get table name, inodeStream d))
       \<and> (IsDir ino = 1 \<and> getTable ino w2 = Some ((rt, None), w3) \<and> length rt \<noteq> 2 \<longrightarrow>
            Dir_Remove name True now d w = Some (Some NotEmpty, d, w3))"
proof (intro conjI impI)
  assume b: "IsDir ino = 1 \<and> getTable ino w2 = Some ((rt, None), w3) \<and> length rt \<noteq> 2"
  then show "Dir_Remove name True now d w = Some (Some NotEmpty, d, w3)"
    unfolding Dir_Remove_found [OF assms] by simp
next
  assume a: "LinkCount ino = 1 \<and> Dir_Remove name reqDir now d w = Some (None, d', w')"
  then have "inodeStream d' = IntStream_put (Table_get table name) (inodeStream d)"
    unfolding Dir_Remove_found [OF assms] Let_def
    by (auto simp: bind_eq_Some_conv split: if_splits option.splits
             dest!: Dir_removeFile_inodeStream)
  then show "stack (inodeStream d') = Table_get table name # stack (inodeStream d)"
    and "IntStream_next (inodeStream d') = (Table_get table name, inodeStream d)"
    by (simp_all add: IntStream_put_def IntStream_next_def)
qed

text \<open>
  A small file system to run \<open>Remove\<close> in: the root directory (inode 1) holds the
  directory \<open>a\<close> (inode 2, itself holding an entry \<open>x\<close>) and the empty file \<open>f\<close>
  (inode 3); inode block 0 is in the bucket and nothing is cached.
\<close>

definition table_root :: InodeTable where
  "table_root = [(''.'', 1), (''..'', 1), (''a'', 2), (''f'', 3)]"

definition table_a :: InodeTable where
  "table_a = [(''.'', 2), (''..'', 1), (''x'', 4)]"

definition dir_inode :: "InodeTable \<Rightarrow> Inode" where
  "dir_inode t =
     (let data = InodeTable_MarshalBinary t in
      \<lparr>Size = of_nat (length data), LinkCount = 1, UnixTime = 0, IsDir = 1,
       DataBuf = data @ replicate (373 - length data) 0, Data = replicate 15 0\<rparr>)"

definition file_inode :: Inode where
  "file_inode = (createInode 0 0)\<lparr>LinkCount := 1\<rparr>"

definition root_dir :: Dir where
  "root_dir = \<lparr>inode = dir_inode table_root, inodeNum = 1,
               inodeStream = \<lparr>stack = [], lastInt = 4\<rparr>\<rparr>"

definition inode_block0 :: DataBlock where
  "inode_block0 =
     replicate 1024 0 @ encode_Inode (dir_inode table_a) @ encode_Inode file_inode
       @ replicate 30720 0"

definition World8 :: World where
  "World8 = fresh_World\<lparr>s3 := [InodeBlockKey 0 \<mapsto> inode_block0]\<rparr>"

lemmas eval_gob_defs =
  InodeTable_MarshalBinary_def InodeTable_UnmarshalBinary_def gob_encode_table_def
  gob_decode_table_def gob_string_def gob_read_string_def gob_uint_def gob_read_uint_def
  gob_map_typedef_def gob_value_prefix_def be_val_def char_of_eq_iff



lemma gob_read_entries_unfold:
  "gob_read_entries k bs =
     (if k = 0 then Some ([], bs)
      else (case gob_read_string bs of
              None \<Rightarrow> None
            | Some (name, rest) \<Rightarrow>
                (case gob_read_uint rest of
                   None \<Rightarrow> None
                 | Some (v, rest') \<Rightarrow>
                     (case gob_read_entries (k - 1) rest' of
                        None \<Rightarrow> None
                      | Some (es, rest'') \<Rightarrow> Some ((name, v) # es, rest'')))))"
  by (cases k) (simp_all split: option.splits prod.splits)

lemma char_eq_char_of: "(c = char_of (n :: nat)) = (take_bit 8 n = of_char c)"
  using char_of_eq_iff [of n c] by auto

lemma replicate_15: "replicate 15 x = [x, x, x, x, x, x, x, x, x, x, x, x, x, x, x]"
  by (simp add: numeral_eq_Suc)

lemma upt_15: "[0..<15] = [0, 1, 2, 3, 4, 5, 6, 7, 8, 9, 10, 11, 12, 13, 14]"
  by code_simp

lemmas eval_dir_defs =
  dir_inode_def table_root_def table_a_def file_inode_def root_dir_def inode_block0_def
  World8_def fresh_World_def eval_gob_defs gob_read_entries_unfold char_eq_char_of
  getTable_def Table_get_def

lemmas eval_inode_store_defs =
  getInode_def putInode_def getInodeBlock_def putInodeBlock_def genInodeBlockKey_def
  encode_Inode_def decode_Inode_def PutUint64_def PutUint16_def Uint64_def Uint16_def
  replicate_15 upt_15 new_Inode_def

lemmas eval_remove_defs =
  Dir_Remove_def Dir_removeFile_def Inode_deleteAllData_def numBlocksToDelete_of_def
  deleteAllData_loop.simps InodeTable_delete_def IntStream_put_def

lemmas eval_all_defs =
  eval_remove_defs eval_dir_defs eval_inode_defs eval_inode_store_defs eval_store_defs
  eval_cache_defs

text \<open>The world once inode block 0 has been read into the cache.\<close>

definition World8c :: World where
  "World8c =
     World8\<lparr>cache := \<lparr>cacheCapacity = 1, recentlyUsedQueue = [(0, InodeBlockKey 0)],
                        keyHash = [InodeBlockKey 0 \<mapsto> 0], nextElement = Suc 0\<rparr>,
             dynamo := [InodeBlockKey 0 \<mapsto> inode_block0]\<rparr>"

lemma getTable_root: "getTable (inode root_dir) World8 = Some ((table_root, None), World8)"
  by (simp add: eval_dir_defs eval_inode_defs)

lemma getInode_f: "getInode 3 World8 = Some ((file_inode, None), World8c)"
  by (simp add: World8c_def createInode_def eval_all_defs)

lemma getInode_a: "getInode 2 World8 = Some ((dir_inode table_a, None), World8c)"
  by (simp add: World8c_def eval_all_defs)

lemma getTable_a: "getTable (dir_inode table_a) World8c = Some ((table_a, None), World8c)"
  by (simp add: World8c_def eval_dir_defs eval_inode_defs)

lemma Remove_f:
  "map_option (\<lambda>(e, d', w'). (e, inodeStream d', deleted w'))
     (Dir_Remove ''f'' False 0 root_dir World8)
   = Some (None, \<lparr>stack = [3], lastInt = 4\<rparr>, [])"
  by (simp add: eval_all_defs)

theorem Dir_Remove_frees_number_witness:
  "getTable (inode root_dir) World8 = Some ((table_root, None), World8)
   \<and> Table_get table_root ''f'' = 3 \<and> Table_get table_root ''a'' = 2
   \<and> getInode 3 World8 = Some ((file_inode, None), World8c)
   \<and> LinkCount file_inode = 1
   \<and> map_option fst (Dir_Remove ''f'' False 0 root_dir World8) = Some None
   \<and> map_option (\<lambda>(e, d', w'). (stack (inodeStream d'), fst (IntStream_next (inodeStream d'))))
         (Dir_Remove ''f'' False 0 root_dir World8) = Some ([3], 3)
   \<and> getInode 2 World8 = Some ((dir_inode table_a, None), World8c)
   \<and> IsDir (dir_inode table_a) = 1
   \<and> getTable (dir_inode table_a) World8c = Some ((table_a, None), World8c)
   \<and> length table_a = 3
   \<and> Dir_Remove ''a'' True 0 root_dir World8 = Some (Some NotEmpty, root_dir, World8c)"
proof -
  have tf: "Table_get table_root ''f'' = 3" and ta: "Table_get table_root ''a'' = 2"
    by (simp_all add: Table_get_def table_root_def)
  have lc: "LinkCount file_inode = 1" by (simp add: file_inode_def)
  have isd: "IsDir (dir_inode table_a) = 1" by (simp add: dir_inode_def Let_def)
  have len: "length table_a = 3" by (simp add: table_a_def)
  from Remove_f obtain d' w' where
    rf: "Dir_Remove ''f'' False 0 root_dir World8 = Some (None, d', w')"
    by (auto simp: map_option_case split: option.splits)
  have f: "stack (inodeStream d') = 3 # stack (inodeStream root_dir)
           \<and> IntStream_next (inodeStream d') = (3, inodeStream root_dir)"
    using Dir_Remove_frees_number [of root_dir World8 table_root None World8 "''f''"
        file_inode World8c False 0 d' w'] getTable_root getInode_f tf lc rf
    by simp
  have a: "Dir_Remove ''a'' True 0 root_dir World8 = Some (Some NotEmpty, root_dir, World8c)"
    using Dir_Remove_frees_number [of root_dir World8 table_root None World8 "''a''"
        "dir_inode table_a" World8c False 0 root_dir World8 table_a World8c]
      getTable_root getInode_a getTable_a ta isd len
    by simp
  show ?thesis
    using getTable_root tf ta getInode_f lc rf f getInode_a isd getTable_a len a
    by (simp add: root_dir_def)
qed

text \<open>
  C8 as the claim states it fails. The directory \<open>a\<close> has a table of size 3, and a
  \<open>Remove\<close> of it whose request has the \<open>Dir\<close> flag clear makes no emptiness test:
  it returns no error, puts inode number 2 on the free-stack and drops the entry from
  the root's table.
\<close>

theorem Dir_Remove_nonempty_directory_removed:
  "getInode 2 World8 = Some ((dir_inode table_a, None), World8c)
   \<and> IsDir (dir_inode table_a) = 1
   \<and> getTable (dir_inode table_a) World8c = Some ((table_a, None), World8c)
   \<and> length table_a = 3
   \<and> map_option (\<lambda>(e, d', w'). (e, inodeStream d',
          map_option (\<lambda>((t, e), w). t) (getTable (inode d') w')))
        (Dir_Remove ''a'' False 0 root_dir World8)
       = Some (None, \<lparr>stack = [2], lastInt = 4\<rparr>, Some [(''.'', 1), (''..'', 1), (''f'', 3)])"
proof -
  have "map_option (\<lambda>(e, d', w'). (e, inodeStream d',
          map_option (\<lambda>((t, e), w). t) (getTable (inode d') w')))
        (Dir_Remove ''a'' False 0 root_dir World8)
       = Some (None, \<lparr>stack = [2], lastInt = 4\<rparr>, Some [(''.'', 1), (''..'', 1), (''f'', 3)])"
    by (simp add: eval_all_defs)
  then show ?thesis
    using getInode_a getTable_a by (simp add: dir_inode_def table_a_def Let_def)
qed

end
